theory Spec2Isabelle
  imports Complex_Main
begin

section \<open>Numbers, vectors and boxes\<close>

text \<open>
  The engine is JavaScript on top of a 3D scene library. A JavaScript number is modelled
  as a \<^typ>\<open>real\<close>: the arithmetic of the source is read as exact arithmetic, so a
  statement below is about the formulas of the code, not about rounding. The source
  divides by the mass: at a mass of zero it produces an infinity or a not-a-number, which
  no real number stands for, so the model is the code only where the mass read from the
  page is not zero.

  A \<open>Vector3\<close> of the library carries three numbers; the methods the source calls on it
  (\<open>add\<close>, \<open>multiplyScalar\<close>, \<open>divideScalar\<close>, \<open>set\<close>) work component by component,
  and \<open>divideScalar s\<close> multiplies by \<open>1 / s\<close>.
\<close>

record vector3 =
  vx :: real
  vy :: real
  vz :: real

definition vec :: "real \<Rightarrow> real \<Rightarrow> real \<Rightarrow> vector3" where
  "vec a b c = \<lparr>vx = a, vy = b, vz = c\<rparr>"

definition vadd :: "vector3 \<Rightarrow> vector3 \<Rightarrow> vector3" where
  "vadd u v = vec (vx u + vx v) (vy u + vy v) (vz u + vz v)"

definition multiplyScalar :: "vector3 \<Rightarrow> real \<Rightarrow> vector3" where
  "multiplyScalar v s = vec (vx v * s) (vy v * s) (vz v * s)"

definition divideScalar :: "vector3 \<Rightarrow> real \<Rightarrow> vector3" where
  "divideScalar v s = multiplyScalar v (1 / s)"

text \<open>An \<open>Object3D\<close> (the cube mesh, a piston mesh): its local position and its Euler
  rotation, the two properties the source reads and writes.\<close>

record object3d =
  position :: vector3
  rotation :: vector3

text \<open>A \<open>Box3\<close>: the two corners of an axis-aligned box.\<close>

record box3 =
  box_min :: vector3
  box_max :: vector3

text \<open>\<open>Box3.intersectsBox\<close> of the library: two boxes intersect unless they are strictly
  apart on one of the three axes, so boxes that only touch do intersect.\<close>

definition intersectsBox :: "box3 \<Rightarrow> box3 \<Rightarrow> bool" where
  "intersectsBox this box =
     (if vx (box_max box) < vx (box_min this) \<or> vx (box_min box) > vx (box_max this)
       \<or> vy (box_max box) < vy (box_min this) \<or> vy (box_min box) > vy (box_max this)
       \<or> vz (box_max box) < vz (box_min this) \<or> vz (box_min box) > vz (box_max this)
      then False else True)"

section \<open>The cube robot\<close>

text \<open>
  The fields of \<open>class cube_robot\<close> that the physics, the movement functions and the
  collision pass read or write. \<open>cube_mass\<close> is \<open>this.cube.mass\<close>. The fields written by
  \<open>_calculate_physics\<close> (\<open>random_value\<close> to \<open>translational_acceleration\<close>) do not exist
  before its first call; every read of them in the source follows a write in the same call.
\<close>

record cube_robot =
  cube :: object3d
  cube_mass :: real
  piston_bottom :: object3d
  angular_velocity :: vector3
  translational_velocity :: vector3
  bounding_box :: box3
  custom_bounding_box :: box3
  position_in_world :: vector3
  index :: int
  random_value :: real
  user_piston_force :: real
  torque_grav :: vector3
  torque :: vector3
  translation :: vector3
  moment_of_inertia :: real
  angular_acceleration :: vector3
  translational_acceleration :: vector3

text \<open>The values the constructor fixes for every robot and that nothing changes later.\<close>

definition GRAVITY_ACCELERATION :: real where
  "GRAVITY_ACCELERATION = 9.8"

definition degToRad :: "real \<Rightarrow> real" where
  "degToRad d = d * (pi / 180)"

definition time_step :: real where
  "time_step = 1 / 360"

definition tipping_point_angle :: real where
  "tipping_point_angle = degToRad 45"

definition full_rotation :: real where
  "full_rotation = degToRad 90"

definition angle :: real where
  "angle = tipping_point_angle"

definition gravity :: vector3 where
  "gravity = vec 0 (GRAVITY_ACCELERATION * 10) 0"

text \<open>\<open>robot_size\<close> is the size of the box of the bare \<open>BoxGeometry(2, 2, 2)\<close>, taken in the
  constructor before any piston is attached.\<close>

definition robot_size :: vector3 where
  "robot_size = vec 2 2 2"

definition piston_size :: real where
  "piston_size = vx robot_size / 2 - 0.1"

definition piston_face_location :: real where
  "piston_face_location = piston_size - 0.8"

definition axis_rotation_distance :: real where
  "axis_rotation_distance = (vx robot_size / 2) / 100"

section \<open>Collision detection and response\<close>

definition update_robot_index :: "cube_robot \<Rightarrow> cube_robot" where
  "update_robot_index robot =
     (if index robot = 1 then robot\<lparr>index := 2\<rparr>
      else if index robot = 2 then robot\<lparr>index := 1\<rparr>
      else if index robot = 3 then robot\<lparr>index := 4\<rparr>
      else if index robot = 4 then robot\<lparr>index := 3\<rparr>
      else robot)"

definition update_piston :: "cube_robot \<Rightarrow> cube_robot" where
  "update_piston robot =
     (if index robot = 1 \<or> index robot = 2 then
        robot\<lparr>piston_bottom := \<lparr>
          position = (position (piston_bottom robot))\<lparr>vy := - piston_face_location\<rparr>,
          rotation = (rotation (piston_bottom robot))\<lparr>vx := vx (rotation (cube robot))\<rparr>\<rparr>\<rparr>
      else if index robot = 3 \<or> index robot = 4 then
        robot\<lparr>piston_bottom := \<lparr>
          position = (position (piston_bottom robot))\<lparr>vy := piston_face_location\<rparr>,
          rotation = (rotation (piston_bottom robot))\<lparr>vx := - vx (rotation (cube robot))\<rparr>\<rparr>\<rparr>
      else robot)"

text \<open>The boundary test of the pass, on the stored world position.\<close>

definition out_of_bounds :: "cube_robot \<Rightarrow> bool" where
  "out_of_bounds robot_a =
     (vx (position_in_world robot_a) < -20 \<or> vx (position_in_world robot_a) > 20
      \<or> vz (position_in_world robot_a) < -20 \<or> vz (position_in_world robot_a) > 20)"

text \<open>
  The array holds references to distinct robot objects; the model is a list of robot
  values, and a write to \<open>robot_array[i]\<close>'s object is a list update at \<open>i\<close>. The body of
  the outer loop first runs the boundary check on robot \<open>i\<close>, then the inner loop over
  \<open>j = i + 1, ..., length - 1\<close>. In the inner loop \<open>j\<close> differs from \<open>i\<close>, so the four
  helper calls act on two different robots.
\<close>

definition boundary_check :: "nat \<Rightarrow> cube_robot list \<Rightarrow> cube_robot list" where
  "boundary_check i robot_array =
     (let robot_a = robot_array ! i in
      if out_of_bounds robot_a
      then robot_array[i := update_piston (update_robot_index robot_a)]
      else robot_array)"

definition pair_check :: "nat \<Rightarrow> nat \<Rightarrow> cube_robot list \<Rightarrow> cube_robot list" where
  "pair_check i j robot_array =
     (let robot_a = robot_array ! i; robot_b = robot_array ! j in
      if intersectsBox (bounding_box robot_a) (bounding_box robot_b)
      then robot_array[i := update_piston (update_robot_index robot_a),
                       j := update_piston (update_robot_index robot_b)]
      else robot_array)"

definition collision_detection :: "cube_robot list \<Rightarrow> cube_robot list" where
  "collision_detection robot_array =
     fold (\<lambda>i arr. fold (pair_check i) [Suc i ..< length arr] (boundary_check i arr))
          [0 ..< length robot_array] robot_array"

section \<open>Bounding boxes\<close>

text \<open>
  \<open>update_bounding_box\<close> hands the cube to \<open>Box3.setFromObject\<close> of the scene library,
  which is not part of this repository. After construction the cube carries its pistons
  as children, and of these only \<open>piston_bottom\<close> is ever moved, so the library's answer
  is a function of the pose of the cube and of the pose of \<open>piston_bottom\<close>. That function
  is the parameter \<open>sfo\<close> of everything that recomputes the box: what is proved for every
  \<open>sfo\<close> does not depend on the library. The library's own function is written out
  further down as \<open>setFromObject\<close>.
\<close>

type_synonym set_from_object = "object3d \<Rightarrow> object3d \<Rightarrow> box3"

definition update_bounding_box :: "set_from_object \<Rightarrow> cube_robot \<Rightarrow> cube_robot" where
  "update_bounding_box sfo r = r\<lparr>bounding_box := sfo (cube r) (piston_bottom r)\<rparr>"


section \<open>The physics step\<close>

text \<open>What one call of \<open>_calculate_physics\<close> reads from outside the robot: the values of
  the two sliders and one result of \<open>Math.random()\<close>.\<close>

record dom_input =
  piston_output :: real
  mass :: real
  math_random :: real

definition calculate_physics :: "dom_input \<Rightarrow> cube_robot \<Rightarrow> cube_robot" where
  "calculate_physics inp r0 =
     (let r1 = r0\<lparr>random_value := math_random inp * 0.1 - 0.09\<rparr>;
          r2 = r1\<lparr>user_piston_force := piston_output inp / 100\<rparr>;
          r3 = r2\<lparr>cube_mass := mass inp / 1000\<rparr>;
          grav_torqueY = - cube_mass r3 * axis_rotation_distance * GRAVITY_ACCELERATION
                           * sin (vx (rotation (cube r3)));
          r4 = r3\<lparr>torque_grav := vec 0 grav_torqueY 0\<rparr>;
          torqueX = user_piston_force r4 * axis_rotation_distance * sin angle;
          torqueZ = user_piston_force r4 * axis_rotation_distance * sin angle;
          r5 = r4\<lparr>torque := vec torqueX 0 torqueZ\<rparr>;
          trans_x = user_piston_force r5 * cos angle;
          trans_z = user_piston_force r5 * cos angle;
          r6 = r5\<lparr>translation := vec trans_x 0 trans_z\<rparr>;
          r7 = r6\<lparr>moment_of_inertia :=
                 (1 / 6) * cube_mass r6 * ((vx robot_size / 100) * (vx robot_size / 100))\<rparr>;
          r8 = r7\<lparr>angular_acceleration := divideScalar (torque r7) (moment_of_inertia r7)\<rparr>;
          r9 = r8\<lparr>translational_acceleration := divideScalar (translation r8) (cube_mass r8)\<rparr>;
          r10 = r9\<lparr>angular_velocity :=
                  vadd (angular_velocity r9) (multiplyScalar (angular_acceleration r9) time_step)\<rparr>
      in r10\<lparr>translational_velocity :=
            vadd (translational_velocity r10)
                 (multiplyScalar (translational_acceleration r10) time_step)\<rparr>)"

section \<open>The four movement functions\<close>

text \<open>Writes to the pose of the cube and of the bottom piston.\<close>

definition cube_rotation_update :: "(vector3 \<Rightarrow> vector3) \<Rightarrow> cube_robot \<Rightarrow> cube_robot" where
  "cube_rotation_update f r = r\<lparr>cube := (cube r)\<lparr>rotation := f (rotation (cube r))\<rparr>\<rparr>"

definition cube_position_update :: "(vector3 \<Rightarrow> vector3) \<Rightarrow> cube_robot \<Rightarrow> cube_robot" where
  "cube_position_update f r = r\<lparr>cube := (cube r)\<lparr>position := f (position (cube r))\<rparr>\<rparr>"

definition piston_rotation_update :: "(vector3 \<Rightarrow> vector3) \<Rightarrow> cube_robot \<Rightarrow> cube_robot" where
  "piston_rotation_update f r =
     r\<lparr>piston_bottom := (piston_bottom r)\<lparr>rotation := f (rotation (piston_bottom r))\<rparr>\<rparr>"

definition piston_position_update :: "(vector3 \<Rightarrow> vector3) \<Rightarrow> cube_robot \<Rightarrow> cube_robot" where
  "piston_position_update f r =
     r\<lparr>piston_bottom := (piston_bottom r)\<lparr>position := f (position (piston_bottom r))\<rparr>\<rparr>"

text \<open>\<open>this.cube.getWorldPosition(this.position_in_world)\<close>: the cube's parent is the scene,
  which has no transform of its own, so the world position is the cube's position.\<close>

definition get_world_position :: "cube_robot \<Rightarrow> cube_robot" where
  "get_world_position r = r\<lparr>position_in_world := position (cube r)\<rparr>"

text \<open>The landing block is the same text in \<open>move_away\<close> and \<open>move_closer\<close> (about the
  x axis) and in \<open>move_left\<close> and \<open>move_right\<close> (about the z axis).\<close>

definition landing_x :: "set_from_object \<Rightarrow> cube_robot \<Rightarrow> cube_robot" where
  "landing_x sfo r =
     (if \<bar>vx (rotation (cube r))\<bar> \<ge> full_rotation then
        update_bounding_box sfo
          (piston_position_update (\<lambda>p. p\<lparr>vy := - piston_face_location\<rparr>)
            (cube_rotation_update (\<lambda>e. e\<lparr>vy := random_value r\<rparr>)
              (cube_rotation_update (\<lambda>e. e\<lparr>vx := 0\<rparr>)
                (r\<lparr>angular_velocity := vec 0 0 0, translational_velocity := vec 0 0 0\<rparr>))))
      else r)"

definition landing_z :: "set_from_object \<Rightarrow> cube_robot \<Rightarrow> cube_robot" where
  "landing_z sfo r =
     (if \<bar>vz (rotation (cube r))\<bar> \<ge> full_rotation then
        update_bounding_box sfo
          (piston_position_update (\<lambda>p. p\<lparr>vy := - piston_face_location\<rparr>)
            (cube_rotation_update (\<lambda>e. e\<lparr>vy := random_value r\<rparr>)
              (cube_rotation_update (\<lambda>e. e\<lparr>vz := 0\<rparr>)
                (r\<lparr>angular_velocity := vec 0 0 0, translational_velocity := vec 0 0 0\<rparr>))))
      else r)"

subsection \<open>\<open>move_away\<close>\<close>

definition away_integrate :: "set_from_object \<Rightarrow> cube_robot \<Rightarrow> cube_robot" where
  "away_integrate sfo r =
     update_bounding_box sfo
       (cube_position_update (\<lambda>p. p\<lparr>vz := vz p - vz (translational_velocity r)\<rparr>)
         (cube_rotation_update (\<lambda>e. e\<lparr>vx := vx e - vz (angular_velocity r) * time_step\<rparr>) r))"

definition away_piston :: "set_from_object \<Rightarrow> cube_robot \<Rightarrow> cube_robot" where
  "away_piston sfo r =
     (if \<bar>vx (rotation (cube r))\<bar> < tipping_point_angle then
        update_bounding_box sfo
          (piston_position_update
             (\<lambda>p. p\<lparr>vy := vy p - vz (angular_velocity r) * time_step,
                    vz := vz p - vz (translational_velocity r) * time_step\<rparr>)
             (piston_rotation_update (\<lambda>e. e\<lparr>vx := angle\<rparr>) r))
      else r)"

definition away_tipping :: "set_from_object \<Rightarrow> cube_robot \<Rightarrow> cube_robot" where
  "away_tipping sfo r =
     (if \<bar>vx (rotation (cube r))\<bar> \<ge> tipping_point_angle then
        (let r1 = r\<lparr>angular_velocity :=
                     vadd (angular_velocity r) (multiplyScalar gravity time_step)\<rparr>
         in update_bounding_box sfo
              (cube_position_update (\<lambda>p. p\<lparr>vz := vz p - vz (translational_velocity r1)\<rparr>)
                (cube_rotation_update
                   (\<lambda>e. e\<lparr>vx := vx e - vy (angular_velocity r1) * time_step\<rparr>) r1)))
      else r)"

definition move_away :: "set_from_object \<Rightarrow> dom_input \<Rightarrow> cube_robot \<Rightarrow> cube_robot" where
  "move_away sfo inp r =
     get_world_position
       (landing_x sfo (away_tipping sfo (away_piston sfo (away_integrate sfo
          (calculate_physics inp r)))))"

subsection \<open>\<open>move_closer\<close>\<close>

definition closer_integrate :: "set_from_object \<Rightarrow> cube_robot \<Rightarrow> cube_robot" where
  "closer_integrate sfo r =
     update_bounding_box sfo
       (cube_position_update (\<lambda>p. p\<lparr>vz := vz p + vz (translational_velocity r)\<rparr>)
         (cube_rotation_update (\<lambda>e. e\<lparr>vx := vx e + vz (angular_velocity r) * time_step\<rparr>) r))"

definition closer_piston :: "set_from_object \<Rightarrow> cube_robot \<Rightarrow> cube_robot" where
  "closer_piston sfo r =
     (if \<bar>vx (rotation (cube r))\<bar> < tipping_point_angle then
        update_bounding_box sfo
          (piston_position_update
             (\<lambda>p. p\<lparr>vy := vy p - vz (angular_velocity r) * time_step,
                    vz := vz p + vz (translational_velocity r) * time_step\<rparr>)
             (piston_rotation_update (\<lambda>e. e\<lparr>vx := - angle\<rparr>) r))
      else r)"

definition closer_tipping :: "set_from_object \<Rightarrow> cube_robot \<Rightarrow> cube_robot" where
  "closer_tipping sfo r =
     (if \<bar>vx (rotation (cube r))\<bar> \<ge> tipping_point_angle then
        (let r1 = r\<lparr>angular_velocity :=
                     vadd (angular_velocity r) (multiplyScalar gravity time_step)\<rparr>
         in update_bounding_box sfo
              (cube_position_update (\<lambda>p. p\<lparr>vz := vz p + vz (translational_velocity r1)\<rparr>)
                (cube_rotation_update
                   (\<lambda>e. e\<lparr>vx := vx e + vy (angular_velocity r1) * time_step\<rparr>) r1)))
      else r)"

definition move_closer :: "set_from_object \<Rightarrow> dom_input \<Rightarrow> cube_robot \<Rightarrow> cube_robot" where
  "move_closer sfo inp r =
     get_world_position
       (landing_x sfo (closer_tipping sfo (closer_piston sfo (closer_integrate sfo
          (calculate_physics inp r)))))"

subsection \<open>\<open>move_left\<close>\<close>

definition left_integrate :: "set_from_object \<Rightarrow> cube_robot \<Rightarrow> cube_robot" where
  "left_integrate sfo r =
     update_bounding_box sfo
       (cube_position_update (\<lambda>p. p\<lparr>vx := vx p - vx (translational_velocity r)\<rparr>)
         (cube_rotation_update (\<lambda>e. e\<lparr>vz := vz e + vx (angular_velocity r) * time_step\<rparr>) r))"

definition left_piston :: "set_from_object \<Rightarrow> cube_robot \<Rightarrow> cube_robot" where
  "left_piston sfo r =
     (if \<bar>vz (rotation (cube r))\<bar> < tipping_point_angle then
        update_bounding_box sfo
          (piston_position_update
             (\<lambda>p. p\<lparr>vy := vy p - vx (angular_velocity r) * time_step,
                    vx := vx p - vx (translational_velocity r) * time_step\<rparr>)
             (piston_rotation_update (\<lambda>e. e\<lparr>vz := - angle\<rparr>) r))
      else r)"

definition left_tipping :: "set_from_object \<Rightarrow> cube_robot \<Rightarrow> cube_robot" where
  "left_tipping sfo r =
     (if \<bar>vz (rotation (cube r))\<bar> \<ge> tipping_point_angle then
        (let r1 = r\<lparr>angular_velocity :=
                     vadd (angular_velocity r) (multiplyScalar gravity time_step)\<rparr>
         in update_bounding_box sfo
              (cube_position_update (\<lambda>p. p\<lparr>vx := vx p - vx (translational_velocity r1)\<rparr>)
                (cube_rotation_update
                   (\<lambda>e. e\<lparr>vz := vz e + vx (angular_velocity r1) * time_step\<rparr>) r1)))
      else r)"

definition move_left :: "set_from_object \<Rightarrow> dom_input \<Rightarrow> cube_robot \<Rightarrow> cube_robot" where
  "move_left sfo inp r =
     get_world_position
       (landing_z sfo (left_tipping sfo (left_piston sfo (left_integrate sfo
          (calculate_physics inp r)))))"

subsection \<open>\<open>move_right\<close>\<close>

definition right_integrate :: "set_from_object \<Rightarrow> cube_robot \<Rightarrow> cube_robot" where
  "right_integrate sfo r =
     update_bounding_box sfo
       (cube_position_update (\<lambda>p. p\<lparr>vx := vx p + vx (translational_velocity r)\<rparr>)
         (cube_rotation_update (\<lambda>e. e\<lparr>vz := vz e - vx (angular_velocity r) * time_step\<rparr>) r))"

definition right_piston :: "set_from_object \<Rightarrow> cube_robot \<Rightarrow> cube_robot" where
  "right_piston sfo r =
     (if \<bar>vz (rotation (cube r))\<bar> < tipping_point_angle then
        update_bounding_box sfo
          (piston_position_update
             (\<lambda>p. p\<lparr>vy := vy p - vx (angular_velocity r) * time_step,
                    vx := vx p - vx (translational_velocity r) * time_step\<rparr>)
             (piston_rotation_update (\<lambda>e. e\<lparr>vz := angle\<rparr>) r))
      else r)"

definition right_tipping :: "set_from_object \<Rightarrow> cube_robot \<Rightarrow> cube_robot" where
  "right_tipping sfo r =
     (if \<bar>vz (rotation (cube r))\<bar> \<ge> tipping_point_angle then
        (let r1 = r\<lparr>angular_velocity :=
                     vadd (angular_velocity r) (multiplyScalar gravity time_step)\<rparr>
         in update_bounding_box sfo
              (cube_position_update (\<lambda>p. p\<lparr>vx := vx p + vx (translational_velocity r1)\<rparr>)
                (cube_rotation_update
                   (\<lambda>e. e\<lparr>vz := vz e - vx (angular_velocity r1) * time_step\<rparr>) r1)))
      else r)"

definition move_right :: "set_from_object \<Rightarrow> dom_input \<Rightarrow> cube_robot \<Rightarrow> cube_robot" where
  "move_right sfo inp r =
     get_world_position
       (landing_z sfo (right_tipping sfo (right_piston sfo (right_integrate sfo
          (calculate_physics inp r)))))"

section \<open>The frame\<close>

text \<open>
  \<open>assign_initial_direction\<close> runs once per frame over the whole array and calls, for
  each robot, the movement function its index selects; an index outside 1..4 selects
  none. \<open>inputs i\<close> is what the call for robot \<open>i\<close> reads from the page and from
  \<open>Math.random()\<close>.
\<close>

definition dispatch :: "set_from_object \<Rightarrow> dom_input \<Rightarrow> cube_robot \<Rightarrow> cube_robot" where
  "dispatch sfo inp robot =
     (if index robot = 1 then move_away sfo inp robot
      else if index robot = 2 then move_closer sfo inp robot
      else if index robot = 3 then move_left sfo inp robot
      else if index robot = 4 then move_right sfo inp robot
      else robot)"

definition assign_initial_direction ::
  "set_from_object \<Rightarrow> (nat \<Rightarrow> dom_input) \<Rightarrow> cube_robot list \<Rightarrow> cube_robot list" where
  "assign_initial_direction sfo inputs robot_array =
     map (\<lambda>i. dispatch sfo (inputs i) (robot_array ! i)) [0 ..< length robot_array]"

text \<open>One run of \<open>animate\<close> after rendering: the collision pass, then the dispatch.\<close>

definition animate :: "set_from_object \<Rightarrow> (nat \<Rightarrow> dom_input) \<Rightarrow> cube_robot list \<Rightarrow> cube_robot list" where
  "animate sfo inputs robot_array =
     assign_initial_direction sfo inputs (collision_detection robot_array)"

text \<open>Any sequence of calls that touch the robots: a collision pass, a dispatch over the
  array, or one movement function on one robot of the array.\<close>

datatype movement = Away | Closer | Left | Right

datatype call =
    Collision_detection
  | Assign_initial_direction "nat \<Rightarrow> dom_input"
  | Movement movement nat dom_input

fun move :: "set_from_object \<Rightarrow> movement \<Rightarrow> dom_input \<Rightarrow> cube_robot \<Rightarrow> cube_robot" where
  "move sfo Away inp r = move_away sfo inp r"
| "move sfo Closer inp r = move_closer sfo inp r"
| "move sfo Left inp r = move_left sfo inp r"
| "move sfo Right inp r = move_right sfo inp r"

fun run_call :: "set_from_object \<Rightarrow> call \<Rightarrow> cube_robot list \<Rightarrow> cube_robot list" where
  "run_call sfo Collision_detection rs = collision_detection rs"
| "run_call sfo (Assign_initial_direction inputs) rs = assign_initial_direction sfo inputs rs"
| "run_call sfo (Movement m k inp) rs = (if k < length rs then rs[k := move sfo m inp (rs ! k)] else rs)"

definition run_calls :: "set_from_object \<Rightarrow> call list \<Rightarrow> cube_robot list \<Rightarrow> cube_robot list" where
  "run_calls sfo calls rs = fold (run_call sfo) calls rs"

section \<open>Construction and initial placement\<close>

text \<open>
  In the constructor, \<open>setFromObject\<close> is called on the bare cube mesh: the pistons are
  attached only afterwards. The library then takes the eight corners of the box of
  \<open>BoxGeometry(2, 2, 2)\<close>, places each in the world by the mesh's Euler rotation (order
  XYZ, the library's default) and position, and returns the smallest axis-aligned box
  holding the eight points. \<open>bare_cube_box\<close> writes this out; it is the library's
  behaviour, not code of the repository.
\<close>

definition rotate_euler :: "vector3 \<Rightarrow> vector3 \<Rightarrow> vector3" where
  "rotate_euler eu p =
     (let a = cos (vx eu); b = sin (vx eu);
          c = cos (vy eu); d = sin (vy eu);
          e = cos (vz eu); f = sin (vz eu)
      in vec (c * e * vx p + (- c * f) * vy p + d * vz p)
             ((a * f + b * e * d) * vx p + (a * e - b * f * d) * vy p + (- b * c) * vz p)
             ((b * f - a * e * d) * vx p + (b * e + a * f * d) * vy p + (a * c) * vz p))"

definition expandByPoint :: "vector3 \<Rightarrow> box3 \<Rightarrow> box3" where
  "expandByPoint p b =
     \<lparr>box_min = vec (min (vx (box_min b)) (vx p)) (min (vy (box_min b)) (vy p))
                     (min (vz (box_min b)) (vz p)),
      box_max = vec (max (vx (box_max b)) (vx p)) (max (vy (box_max b)) (vy p))
                     (max (vz (box_max b)) (vz p))\<rparr>"

definition cube_corners :: "vector3 list" where
  "cube_corners =
     [vec (-1) (-1) (-1), vec (-1) (-1) 1, vec (-1) 1 (-1), vec (-1) 1 1,
      vec 1 (-1) (-1), vec 1 (-1) 1, vec 1 1 (-1), vec 1 1 1]"

definition to_world :: "object3d \<Rightarrow> vector3 \<Rightarrow> vector3" where
  "to_world obj p = vadd (rotate_euler (rotation obj) p) (position obj)"

definition bare_cube_box :: "object3d \<Rightarrow> box3" where
  "bare_cube_box obj =
     fold (\<lambda>p. expandByPoint (to_world obj p)) (tl cube_corners)
          \<lparr>box_min = to_world obj (hd cube_corners), box_max = to_world obj (hd cube_corners)\<rparr>"

text \<open>
  After construction the cube carries seven children: the cross-lines and six pistons.
  \<open>setFromObject\<close> on the cube then returns the union of the box of the cube mesh with
  the boxes of its children, each child's geometry box being placed in the world by the
  child's own pose followed by the cube's. The cross-lines are wireframes of the cube's
  own geometry with no pose of their own, so their boxes are the cube's. A piston is a
  \<open>CylinderGeometry(0.3, 0.3, 2, 32)\<close>, whose geometry box is 0.3 wide about its axis and
  reaches 1 along it (the y axis). Five pistons keep the pose the constructor gives them
  (\<open>rotateX\<close> and \<open>rotateZ\<close> by a quarter turn on a fresh mesh set that Euler angle);
  the bottom piston is the one the movement functions and \<open>update_piston\<close> move.
  As \<open>bare_cube_box\<close>, this is the library's behaviour, not code of the repository.
\<close>

definition cylinder_corners :: "vector3 list" where
  "cylinder_corners =
     [vec (-0.3) (-1) (-0.3), vec (-0.3) (-1) 0.3, vec (-0.3) 1 (-0.3), vec (-0.3) 1 0.3,
      vec 0.3 (-1) (-0.3), vec 0.3 (-1) 0.3, vec 0.3 1 (-0.3), vec 0.3 1 0.3]"

definition piston_box :: "object3d \<Rightarrow> object3d \<Rightarrow> box3" where
  "piston_box cube_obj piston =
     fold (\<lambda>p. expandByPoint (to_world cube_obj (to_world piston p))) (tl cylinder_corners)
          \<lparr>box_min = to_world cube_obj (to_world piston (hd cylinder_corners)),
             box_max = to_world cube_obj (to_world piston (hd cylinder_corners))\<rparr>"

definition union_box :: "box3 \<Rightarrow> box3 \<Rightarrow> box3" where
  "union_box this box =
     \<lparr>box_min = vec (min (vx (box_min this)) (vx (box_min box)))
                    (min (vy (box_min this)) (vy (box_min box)))
                    (min (vz (box_min this)) (vz (box_min box))),
      box_max = vec (max (vx (box_max this)) (vx (box_max box)))
                    (max (vy (box_max this)) (vy (box_max box)))
                    (max (vz (box_max this)) (vz (box_max box)))\<rparr>"

definition piston_front :: object3d where
  "piston_front = \<lparr>position = vec 0 0 piston_face_location, rotation = vec (pi / 2) 0 0\<rparr>"

definition piston_top :: object3d where
  "piston_top = \<lparr>position = vec 0 piston_face_location 0, rotation = vec 0 0 0\<rparr>"

definition piston_right :: object3d where
  "piston_right = \<lparr>position = vec piston_face_location 0 0, rotation = vec 0 0 (pi / 2)\<rparr>"

definition piston_back :: object3d where
  "piston_back = \<lparr>position = vec 0 0 (- piston_face_location), rotation = vec (pi / 2) 0 0\<rparr>"

definition piston_left :: object3d where
  "piston_left = \<lparr>position = vec (- piston_face_location) 0 0, rotation = vec 0 0 (pi / 2)\<rparr>"

definition setFromObject :: set_from_object where
  "setFromObject cube_obj bottom =
     fold (\<lambda>piston b. union_box b (piston_box cube_obj piston))
          [piston_front, piston_top, piston_right, bottom, piston_back, piston_left]
          (bare_cube_box cube_obj)"

text \<open>
  The constructor. A new robot has no \<open>index\<close> (it is \<open>undefined\<close>, which equals none of
  1, 2, 3, 4); the model writes 0 there, which equals none of them either. The fields
  that only \<open>_calculate_physics\<close> creates are written as zero.
\<close>

definition new_cube_robot :: "real \<Rightarrow> real \<Rightarrow> real \<Rightarrow> cube_robot" where
  "new_cube_robot x y z =
     \<lparr>cube = \<lparr>position = vec x y z, rotation = vec 0 0 0\<rparr>,
      cube_mass = 0,
      piston_bottom = \<lparr>position = vec 0 (- piston_face_location) 0, rotation = vec 0 0 0\<rparr>,
      angular_velocity = vec 0 0 0,
      translational_velocity = vec 0 0 0,
      bounding_box = bare_cube_box \<lparr>position = vec x y z, rotation = vec 0 0 0\<rparr>,
      custom_bounding_box =
        \<lparr>box_min = vec (x - 1) (y - 1) (z - 1), box_max = vec (x + 1) (y + 1) (z + 1)\<rparr>,
      position_in_world = vec 0 0 0,
      index = 0,
      random_value = 0,
      user_piston_force = 0,
      torque_grav = vec 0 0 0,
      torque = vec 0 0 0,
      translation = vec 0 0 0,
      moment_of_inertia = 0,
      angular_acceleration = vec 0 0 0,
      translational_acceleration = vec 0 0 0\<rparr>"

definition create_robots :: "real \<Rightarrow> real \<Rightarrow> real \<Rightarrow> cube_robot" where
  "create_robots x y z = new_cube_robot x y z"

text \<open>
  \<open>Math.random()\<close> is an input: the list of the numbers it will return, in order. A run
  that asks for more numbers than the list holds stops with \<open>Out_of_draws\<close>; the
  \<open>while\<close> loop of the source, which retries without bound, is in this way a recursion
  on the list. \<open>Math.random()\<close> returns numbers in \<open>[0, 1)\<close> only: a list with another
  number where the index is drawn is refused (\<open>Bad_draw\<close>).
\<close>

datatype stop = Out_of_draws | Bad_draw | Unmodelled_number

fun place_robot :: "cube_robot list \<Rightarrow> real list \<Rightarrow> stop + (cube_robot \<times> real list)" where
  "place_robot robot_array (u1 # u2 # draws) =
     (let x = u1 * 36 - 18;
          z = u2 * 36 - 18;
          robot = create_robots x 1.3 z;
          collision_detected =
            list_ex (\<lambda>current. intersectsBox (bounding_box robot) (bounding_box current))
                    robot_array
      in if \<not> collision_detected then Inr (robot, draws)
         else place_robot robot_array draws)"
| "place_robot robot_array draws = Inl Out_of_draws"

definition movement_indices :: "int list" where
  "movement_indices = [1, 2, 3, 4]"

text \<open>
  The bound of the \<open>for\<close> loop is \<open>num_robots\<close>, which \<open>init_engine\<close> takes from the URL:
  a string, or the number 1. The comparison \<open>i < num_robots\<close> converts a string to a
  number by the language's rule. Of that rule the model covers the empty string (0), a
  string of decimal digits (its value) and a string that begins with an ASCII letter
  other than \<open>I\<close>, which is no numeric literal and converts to not-a-number; any other
  string (a sign, a fraction, an exponent, a radix prefix, white space, \<open>Infinity\<close>) is
  left out, and a run on it stops with \<open>Unmodelled_number\<close>.
\<close>

datatype js_value = Str string | Number real

datatype js_number = Num real | NaN

definition is_digit :: "char \<Rightarrow> bool" where
  "is_digit c = (c \<in> set ''0123456789'')"

definition is_letter :: "char \<Rightarrow> bool" where
  "is_letter c = (c \<in> set ''abcdefghijklmnopqrstuvwxyzABCDEFGHIJKLMNOPQRSTUVWXYZ'')"

definition decimal :: "string \<Rightarrow> nat" where
  "decimal s = foldl (\<lambda>n c. 10 * n + (of_char c - 48)) 0 s"

definition string_to_number :: "string \<Rightarrow> js_number option" where
  "string_to_number s =
     (if s = [] then Some (Num 0)
      else if list_all is_digit s then Some (Num (real (decimal s)))
      else if is_letter (hd s) \<and> hd s \<noteq> CHR ''I'' then Some NaN
      else None)"

definition to_number :: "js_value \<Rightarrow> js_number option" where
  "to_number v = (case v of Number r \<Rightarrow> Some (Num r) | Str s \<Rightarrow> string_to_number s)"

text \<open>\<open>i < n\<close> on numbers: false when \<open>n\<close> is not-a-number.\<close>

fun js_less :: "real \<Rightarrow> js_number \<Rightarrow> bool" where
  "js_less i (Num r) = (i < r)"
| "js_less i NaN = False"

function init_loop :: "nat \<Rightarrow> js_number \<Rightarrow> real list \<Rightarrow> cube_robot list \<Rightarrow> stop + cube_robot list" where
  "init_loop i num_robots draws robot_array =
     (if js_less (real i) num_robots then
        (case place_robot robot_array draws of
           Inl e \<Rightarrow> Inl e
         | Inr (robot, draws1) \<Rightarrow>
            (case draws1 of
               [] \<Rightarrow> Inl Out_of_draws
             | u # draws2 \<Rightarrow>
                if 0 \<le> u \<and> u < 1 then
                  init_loop (Suc i) num_robots draws2
                    (robot_array @ [robot\<lparr>index := movement_indices ! nat \<lfloor>u * 4\<rfloor>\<rparr>])
                else Inl Bad_draw))
      else Inr robot_array)"
  by pat_completeness auto
termination
proof (relation "measure (\<lambda>(i, n, draws, arr). case n of Num r \<Rightarrow> nat \<lceil>r\<rceil> - i | NaN \<Rightarrow> 0)",
    goal_cases)
  case 1
  show ?case by simp
next
  case (2 i num_robots draws robot_array)
  then obtain r where "num_robots = Num r" "real i < r"
    by (cases num_robots) auto
  moreover from this have "i < nat \<lceil>r\<rceil>"
    by linarith
  ultimately show ?case
    by simp
qed

declare init_loop.simps [simp del]

definition initialize_robots :: "real list \<Rightarrow> js_value \<Rightarrow> stop + cube_robot list" where
  "initialize_robots draws num_robots =
     (case to_number num_robots of
        None \<Rightarrow> Inl Unmodelled_number
      | Some n \<Rightarrow> init_loop 0 n draws [])"

text \<open>\<open>url_params.get('num_robots') || 1\<close>: the parameter is absent (\<open>null\<close>) or a string;
  \<open>null\<close> and the empty string are falsy and give the number 1.\<close>

definition num_robots_create :: "string option \<Rightarrow> js_value" where
  "num_robots_create url_num_robots =
     (case url_num_robots of
        None \<Rightarrow> Number 1
      | Some s \<Rightarrow> if s = [] then Number 1 else Str s)"

text \<open>The robots \<open>init_engine\<close> builds before the first frame.\<close>

definition init_engine :: "string option \<Rightarrow> real list \<Rightarrow> stop + cube_robot list" where
  "init_engine url_num_robots draws = initialize_robots draws (num_robots_create url_num_robots)"

section \<open>Definitions for the statements and proofs\<close>

text \<open>
  The collision response to one event on one robot is \<open>update_robot_index\<close> followed by
  \<open>update_piston\<close> (\<open>touch\<close>). \<open>flips rs k\<close> counts the events of one pass that
  concern robot \<open>k\<close>: one if it is out of bounds, and one for each other robot whose box
  intersects its own. \<open>events\<close> lists the robots touched by a pass in the order of the
  two loops, read off the boxes and world positions before the pass.

  For the movement functions: \<open>primary_angle m\<close> is the rotation angle movement \<open>m\<close>
  integrates and its landing check reads, \<open>spin m\<close> the angular velocity component it
  integrates with, \<open>after_integration\<close> the robot after \<open>_calculate_physics\<close> and the
  first integration of the frame, \<open>at_landing_check\<close> the robot as the landing check of
  the frame finds it. \<open>ordered\<close> says that a box has its minimum below its maximum on
  every axis, \<open>boxes_apart\<close> that no two boxes of an array intersect.

  For placement: \<open>candidate (a, b, u)\<close> is the robot that three draws give, two for its
  place and one for its index, and \<open>draws_of\<close> lists the draws of such triples in order.

  Concrete robots and inputs for the examples: \<open>robot_at x z n\<close> is a robot standing at
  \<open>(x, 1.3, z)\<close>, the height at which robots are created, with its world position stored
  and direction index \<open>n\<close>; \<open>tilted a c\<close> is such a robot at the origin with its cube
  rotated by \<open>a\<close> about x and \<open>c\<close> about z; \<open>spinning a c\<close> is such a cube that turns at
  360 radians per second about x and z; \<open>backspin\<close> is a cube 1/2000 radian short of a
  quarter turn about x whose angular velocity about z is negative; \<open>still_input\<close> and
  \<open>push_input\<close> are slider readings with the piston force at 0 and at 0.5, and a mass of
  0.05.
\<close>

definition touch :: "cube_robot \<Rightarrow> cube_robot" where
  "touch r = update_piston (update_robot_index r)"

definition touch_at :: "nat \<Rightarrow> cube_robot list \<Rightarrow> cube_robot list" where
  "touch_at k rs = rs[k := touch (rs ! k)]"

definition flip_index :: "int \<Rightarrow> int" where
  "flip_index n = (if n = 1 then 2 else if n = 2 then 1 else if n = 3 then 4 else if n = 4 then 3 else n)"

definition geometry :: "cube_robot \<Rightarrow> box3 \<times> vector3" where
  "geometry r = (bounding_box r, position_in_world r)"

definition pair_events :: "cube_robot list \<Rightarrow> nat \<Rightarrow> nat \<Rightarrow> nat list" where
  "pair_events rs0 i j =
     (if intersectsBox (bounding_box (rs0 ! i)) (bounding_box (rs0 ! j)) then [i, j] else [])"

definition boundary_events :: "cube_robot list \<Rightarrow> nat \<Rightarrow> nat list" where
  "boundary_events rs0 i = (if out_of_bounds (rs0 ! i) then [i] else [])"

definition robot_events :: "cube_robot list \<Rightarrow> nat \<Rightarrow> nat list" where
  "robot_events rs0 i =
     boundary_events rs0 i @ concat (map (pair_events rs0 i) [Suc i ..< length rs0])"

definition events :: "cube_robot list \<Rightarrow> nat list" where
  "events rs0 = concat (map (robot_events rs0) [0 ..< length rs0])"

definition flips :: "cube_robot list \<Rightarrow> nat \<Rightarrow> nat" where
  "flips rs k =
     (if out_of_bounds (rs ! k) then 1 else 0)
     + length (filter (\<lambda>j. j \<noteq> k \<and> intersectsBox (bounding_box (rs ! k)) (bounding_box (rs ! j)))
                      [0 ..< length rs])"

definition robot_at :: "real \<Rightarrow> real \<Rightarrow> int \<Rightarrow> cube_robot" where
  "robot_at x z n = (new_cube_robot x 1.3 z)\<lparr>position_in_world := vec x 1.3 z, index := n\<rparr>"

definition tilted :: "real \<Rightarrow> real \<Rightarrow> cube_robot" where
  "tilted a c = (robot_at 0 0 1)\<lparr>cube := \<lparr>position = vec 0 1.3 0, rotation = vec a 0 c\<rparr>\<rparr>"

definition still_input :: dom_input where
  "still_input = \<lparr>piston_output = 0, mass = 50, math_random = 1 / 2\<rparr>"

definition push_input :: dom_input where
  "push_input = \<lparr>piston_output = 50, mass = 50, math_random = 1 / 2\<rparr>"

definition boxes_apart :: "cube_robot list \<Rightarrow> bool" where
  "boxes_apart rs =
     (\<forall>i < length rs. \<forall>j < length rs. i \<noteq> j \<longrightarrow>
        \<not> intersectsBox (bounding_box (rs ! i)) (bounding_box (rs ! j)))"

definition ordered :: "box3 \<Rightarrow> bool" where
  "ordered b = (vx (box_min b) \<le> vx (box_max b) \<and> vy (box_min b) \<le> vy (box_max b)
                \<and> vz (box_min b) \<le> vz (box_max b))"







definition candidate :: "real \<times> real \<times> real \<Rightarrow> cube_robot" where
  "candidate t = (case t of (a, b, u) \<Rightarrow>
     (create_robots (a * 36 - 18) 1.3 (b * 36 - 18))\<lparr>index := movement_indices ! nat \<lfloor>u * 4\<rfloor>\<rparr>)"

definition draws_of :: "(real \<times> real \<times> real) list \<Rightarrow> real list" where
  "draws_of ts = concat (map (\<lambda>(a, b, u). [a, b, u]) ts)"

section \<open>Properties\<close>

subsection \<open>The collision pass\<close>

lemma index_update_robot_index: "index (update_robot_index r) = flip_index (index r)"
  by (simp add: update_robot_index_def flip_index_def)

lemma index_update_piston: "index (update_piston r) = index r"
  by (simp add: update_piston_def)

lemma index_touch: "index (touch r) = flip_index (index r)"
  by (simp add: touch_def index_update_piston index_update_robot_index)

lemma geometry_touch: "geometry (touch r) = geometry r"
  by (simp add: touch_def geometry_def update_piston_def update_robot_index_def)

lemma boundary_check_touch:
  "boundary_check i rs = (if out_of_bounds (rs ! i) then touch_at i rs else rs)"
  by (simp add: boundary_check_def touch_at_def touch_def Let_def)

lemma pair_check_touch:
  "i \<noteq> j \<Longrightarrow> pair_check i j rs =
     (if intersectsBox (bounding_box (rs ! i)) (bounding_box (rs ! j))
      then touch_at j (touch_at i rs) else rs)"
  by (simp add: pair_check_def touch_at_def touch_def Let_def)

lemma length_touch_at: "length (touch_at k rs) = length rs"
  by (simp add: touch_at_def)

lemma map_geometry_touch_at: "map geometry (touch_at k rs) = map geometry rs"
proof (rule nth_equalityI)
  show "length (map geometry (touch_at k rs)) = length (map geometry rs)"
    by (simp add: touch_at_def)
next
  fix i assume "i < length (map geometry (touch_at k rs))"
  then have i: "i < length rs" by (simp add: touch_at_def)
  show "map geometry (touch_at k rs) ! i = map geometry rs ! i"
    using i by (cases "i = k") (simp_all add: touch_at_def geometry_touch)
qed

lemma geometry_nth:
  "map geometry rs = map geometry rs0 \<Longrightarrow> k < length rs0 \<Longrightarrow> geometry (rs ! k) = geometry (rs0 ! k)"
  by (metis length_map nth_map)

lemma map_geometry_fold_touch_at: "map geometry (fold touch_at evs rs) = map geometry rs"
  by (induction evs arbitrary: rs) (simp_all add: map_geometry_touch_at)

lemma length_fold_touch_at: "length (fold touch_at evs rs) = length rs"
  by (induction evs arbitrary: rs) (simp_all add: length_touch_at)

lemma inner_loop_events:
  assumes "map geometry rs = map geometry rs0" "i < length rs0" "\<forall>j \<in> set js. i < j \<and> j < length rs0"
  shows "fold (pair_check i) js rs = fold touch_at (concat (map (pair_events rs0 i) js)) rs"
  using assms
proof (induction js arbitrary: rs)
  case Nil
  then show ?case by simp
next
  case (Cons j js)
  have ij: "i \<noteq> j" "j < length rs0" using Cons.prems by auto
  have gi: "geometry (rs ! i) = geometry (rs0 ! i)" and gj: "geometry (rs ! j) = geometry (rs0 ! j)"
    using Cons.prems ij by (auto intro: geometry_nth)
  then have bb: "bounding_box (rs ! i) = bounding_box (rs0 ! i)" "bounding_box (rs ! j) = bounding_box (rs0 ! j)"
    by (simp_all add: geometry_def)
  have step: "pair_check i j rs = fold touch_at (pair_events rs0 i j) rs"
    using ij by (simp add: pair_check_touch bb pair_events_def)
  have "map geometry (pair_check i j rs) = map geometry rs0"
    by (simp add: step map_geometry_fold_touch_at Cons.prems)
  then have "fold (pair_check i) js (pair_check i j rs)
      = fold touch_at (concat (map (pair_events rs0 i) js)) (pair_check i j rs)"
    using Cons.IH Cons.prems by simp
  then show ?case by (simp add: step)
qed

lemma outer_loop_events:
  assumes "map geometry rs = map geometry rs0" "\<forall>i \<in> set is. i < length rs0"
  shows "fold (\<lambda>i arr. fold (pair_check i) [Suc i ..< length arr] (boundary_check i arr)) is rs
       = fold touch_at (concat (map (robot_events rs0) is)) rs"
  using assms
proof (induction "is" arbitrary: rs)
  case Nil
  then show ?case by simp
next
  case (Cons i "is")
  have i: "i < length rs0" using Cons.prems by simp
  have len: "length rs = length rs0" using Cons.prems(1) by (metis length_map)
  have "geometry (rs ! i) = geometry (rs0 ! i)"
    using Cons.prems i by (auto intro: geometry_nth)
  then have oob: "out_of_bounds (rs ! i) = out_of_bounds (rs0 ! i)"
    by (simp add: geometry_def out_of_bounds_def)
  have b: "boundary_check i rs = fold touch_at (boundary_events rs0 i) rs"
    by (simp add: boundary_check_touch oob boundary_events_def)
  have gb: "map geometry (boundary_check i rs) = map geometry rs0"
    by (simp add: b map_geometry_fold_touch_at Cons.prems)
  have lb: "length (boundary_check i rs) = length rs0"
    by (simp add: b length_fold_touch_at len)
  have inner: "fold (pair_check i) [Suc i ..< length rs] (boundary_check i rs)
      = fold touch_at (robot_events rs0 i) rs"
    unfolding len using inner_loop_events [OF gb i, of "[Suc i ..< length rs0]"]
    by (simp add: robot_events_def b)
  have "map geometry (fold touch_at (robot_events rs0 i) rs) = map geometry rs0"
    by (simp add: map_geometry_fold_touch_at Cons.prems)
  then show ?case
    using Cons.IH Cons.prems by (simp add: inner)
qed

lemma collision_detection_events:
  "collision_detection rs = fold touch_at (events rs) rs"
  unfolding collision_detection_def events_def
  by (rule outer_loop_events) simp_all

lemma intersectsBox_sym: "intersectsBox a b = intersectsBox b a"
  by (auto simp: intersectsBox_def)

lemma count_pair_events_other:
  "i \<noteq> k \<Longrightarrow> distinct js \<Longrightarrow>
   count_list (concat (map (pair_events rs i) js)) k =
     (if k \<in> set js \<and> intersectsBox (bounding_box (rs ! i)) (bounding_box (rs ! k)) then 1 else 0)"
  by (induction js) (auto simp: pair_events_def)

lemma count_pair_events_self:
  "k \<notin> set js \<Longrightarrow>
   count_list (concat (map (pair_events rs k) js)) k =
     length (filter (\<lambda>j. intersectsBox (bounding_box (rs ! k)) (bounding_box (rs ! j))) js)"
  by (induction js) (auto simp: pair_events_def)

lemma count_robot_events_before:
  "i < k \<Longrightarrow> k < length rs \<Longrightarrow>
   count_list (robot_events rs i) k =
     (if intersectsBox (bounding_box (rs ! k)) (bounding_box (rs ! i)) then 1 else 0)"
  by (simp add: robot_events_def boundary_events_def count_pair_events_other
      intersectsBox_sym [of "bounding_box (rs ! k)"])

lemma count_robot_events_self:
  "count_list (robot_events rs k) k =
     (if out_of_bounds (rs ! k) then 1 else 0)
     + length (filter (\<lambda>j. intersectsBox (bounding_box (rs ! k)) (bounding_box (rs ! j)))
                      [Suc k ..< length rs])"
  by (simp add: robot_events_def boundary_events_def count_pair_events_self)

lemma count_robot_events_after:
  "k < i \<Longrightarrow> count_list (robot_events rs i) k = 0"
  by (simp add: robot_events_def boundary_events_def count_pair_events_other)

lemma count_concat_indicator:
  "\<forall>i \<in> set is. count_list (f i) k = (if P i then 1 else 0) \<Longrightarrow>
   count_list (concat (map f is)) k = length (filter P is)"
  by (induction "is") auto

lemma count_concat_zero:
  "\<forall>i \<in> set is. count_list (f i) k = 0 \<Longrightarrow> count_list (concat (map f is)) k = 0"
  by (induction "is") auto

lemma count_events:
  assumes k: "k < length rs"
  shows "count_list (events rs) k = flips rs k"
proof -
  let ?A = "\<lambda>j. intersectsBox (bounding_box (rs ! k)) (bounding_box (rs ! j))"
  have split: "[0 ..< length rs] = [0 ..< k] @ k # [Suc k ..< length rs]"
    using k upt_add_eq_append [of 0 k "length rs - k"] by (simp add: upt_conv_Cons)
  have before: "count_list (concat (map (robot_events rs) [0 ..< k])) k = length (filter ?A [0 ..< k])"
    by (rule count_concat_indicator) (simp add: count_robot_events_before k)
  have after: "count_list (concat (map (robot_events rs) [Suc k ..< length rs])) k = 0"
    by (rule count_concat_zero) (simp add: count_robot_events_after)
  have f1: "filter (\<lambda>j. j \<noteq> k \<and> ?A j) [0 ..< k] = filter ?A [0 ..< k]"
    by (rule filter_cong) auto
  have f2: "filter (\<lambda>j. j \<noteq> k \<and> ?A j) [Suc k ..< length rs] = filter ?A [Suc k ..< length rs]"
    by (rule filter_cong) auto
  have "count_list (events rs) k =
      length (filter ?A [0 ..< k]) + count_list (robot_events rs k) k"
    unfolding events_def by (subst split) (simp add: before after)
  moreover have "flips rs k = (if out_of_bounds (rs ! k) then 1 else 0)
      + (length (filter ?A [0 ..< k]) + length (filter ?A [Suc k ..< length rs]))"
    unfolding flips_def by (subst split) (simp add: f1 f2)
  ultimately show ?thesis
    by (simp add: count_robot_events_self)
qed

lemma index_funpow_update_robot_index:
  "index ((update_robot_index ^^ n) r) = (flip_index ^^ n) (index r)"
  by (induction n) (simp_all add: index_update_robot_index)

lemma nth_fold_touch_at:
  "k < length rs \<Longrightarrow> fold touch_at evs rs ! k = (touch ^^ count_list evs k) (rs ! k)"
proof (induction evs arbitrary: rs)
  case Nil
  then show ?case by simp
next
  case (Cons e evs)
  have "touch_at e rs ! k = (if e = k then touch (rs ! k) else rs ! k)"
    using Cons.prems by (auto simp: touch_at_def)
  then show ?case
    using Cons.IH [of "touch_at e rs"] Cons.prems
    by (simp add: length_touch_at funpow_swap1)
qed

lemma length_collision_detection: "length (collision_detection rs) = length rs"
  by (simp add: collision_detection_events length_fold_touch_at)

lemma nth_collision_detection:
  "k < length rs \<Longrightarrow> collision_detection rs ! k = (touch ^^ flips rs k) (rs ! k)"
  by (simp add: collision_detection_events nth_fold_touch_at count_events)

lemma index_funpow_touch: "index ((touch ^^ n) r) = (flip_index ^^ n) (index r)"
  by (induction n) (simp_all add: index_touch)

lemma touch_unchanged:
  "cube (touch r) = cube r" "cube_mass (touch r) = cube_mass r"
  "angular_velocity (touch r) = angular_velocity r"
  "translational_velocity (touch r) = translational_velocity r"
  "position_in_world (touch r) = position_in_world r"
  "bounding_box (touch r) = bounding_box r"
  "custom_bounding_box (touch r) = custom_bounding_box r"
  by (simp_all add: touch_def update_piston_def update_robot_index_def)

lemma funpow_touch_unchanged:
  "cube ((touch ^^ n) r) = cube r" "cube_mass ((touch ^^ n) r) = cube_mass r"
  "angular_velocity ((touch ^^ n) r) = angular_velocity r"
  "translational_velocity ((touch ^^ n) r) = translational_velocity r"
  "position_in_world ((touch ^^ n) r) = position_in_world r"
  "bounding_box ((touch ^^ n) r) = bounding_box r"
  "custom_bounding_box ((touch ^^ n) r) = custom_bounding_box r"
  by (induction n) (simp_all add: touch_unchanged)

subsection \<open>Concrete robots\<close>

lemma expandByPoint_vec:
  "expandByPoint (vec p q r) \<lparr>box_min = vec a0 b0 c0, box_max = vec a1 b1 c1\<rparr>
     = \<lparr>box_min = vec (min a0 p) (min b0 q) (min c0 r),
        box_max = vec (max a1 p) (max b1 q) (max c1 r)\<rparr>"
  by (simp add: expandByPoint_def vec_def)

lemma to_world_unrotated:
  "to_world \<lparr>position = vec x y z, rotation = vec 0 0 0\<rparr> (vec a b c) = vec (x + a) (y + b) (z + c)"
  by (simp add: to_world_def rotate_euler_def vec_def vadd_def)

lemma bare_cube_box_unrotated:
  "bare_cube_box \<lparr>position = vec x y z, rotation = vec 0 0 0\<rparr>
     = \<lparr>box_min = vec (x - 1) (y - 1) (z - 1), box_max = vec (x + 1) (y + 1) (z + 1)\<rparr>"
  by (simp add: bare_cube_box_def cube_corners_def to_world_unrotated expandByPoint_vec)

lemma bounding_box_robot_at:
  "bounding_box (robot_at x z n)
     = \<lparr>box_min = vec (x - 1) (3 / 10) (z - 1), box_max = vec (x + 1) (23 / 10) (z + 1)\<rparr>"
  by (simp add: robot_at_def new_cube_robot_def bare_cube_box_unrotated)

lemma out_of_bounds_robot_at:
  "out_of_bounds (robot_at x z n) = (x < -20 \<or> x > 20 \<or> z < -20 \<or> z > 20)"
  by (simp add: robot_at_def out_of_bounds_def vec_def)

lemma index_robot_at: "index (robot_at x z n) = n"
  by (simp add: robot_at_def)

subsection \<open>Collision response (C1, C6)\<close>

text \<open>
  Claim C1, as the code has it. One pass of \<open>collision_detection\<close> applies the index flip
  (1 to 2, 2 to 1, 3 to 4, 4 to 3) to robot \<open>k\<close> once for every event that concerns it:
  once if it is out of bounds and once for each other robot whose box intersects its own.
  Hence two robots with intersecting boxes, both inside the boundary, both end the pass
  flipped, and indices 1 and 3 become 2 and 4.
\<close>

theorem collision_flips_per_event:
  "(k < length rs \<longrightarrow>
      index (collision_detection rs ! k) = index ((update_robot_index ^^ flips rs k) (rs ! k)))
   \<and> (intersectsBox (bounding_box a) (bounding_box b) \<and> \<not> out_of_bounds a \<and> \<not> out_of_bounds b \<longrightarrow>
        map index (collision_detection [a, b])
          = [index (update_robot_index a), index (update_robot_index b)])
   \<and> (intersectsBox (bounding_box a) (bounding_box b) \<and> \<not> out_of_bounds a \<and> \<not> out_of_bounds b
        \<and> index a = 1 \<and> index b = 3 \<longrightarrow>
        map index (collision_detection [a, b]) = [2, 4])"
proof -
  have general: "index (collision_detection rs ! k) = index ((update_robot_index ^^ flips rs k) (rs ! k))"
    if "k < length rs" for rs k
    using that
    by (simp add: nth_collision_detection index_funpow_touch index_funpow_update_robot_index)
  have two: "map index (collision_detection [a, b])
          = [index (update_robot_index a), index (update_robot_index b)]"
    if "intersectsBox (bounding_box a) (bounding_box b)" "\<not> out_of_bounds a" "\<not> out_of_bounds b"
  proof -
    have "intersectsBox (bounding_box b) (bounding_box a)"
      using that(1) by (simp add: intersectsBox_sym [of "bounding_box b" "bounding_box a"])
    then have "flips [a, b] 0 = 1" "flips [a, b] 1 = 1"
      using that by (simp_all add: flips_def)
    then have "index (collision_detection [a, b] ! 0) = index (update_robot_index a)"
      "index (collision_detection [a, b] ! 1) = index (update_robot_index b)"
      using general [of 0 "[a, b]"] general [of 1 "[a, b]"] by simp_all
    moreover have "length (collision_detection [a, b]) = 2"
      by (simp add: length_collision_detection)
    ultimately show ?thesis
      by (intro nth_equalityI) (auto simp: less_Suc_eq numeral_2_eq_2)
  qed
  show ?thesis
    using general two by (auto simp: update_robot_index_def)
qed

lemma map_index_collision_detection:
  "map index (collision_detection rs)
     = map (\<lambda>k. (flip_index ^^ flips rs k) (index (rs ! k))) [0 ..< length rs]"
  by (rule nth_equalityI)
     (simp_all add: length_collision_detection nth_collision_detection index_funpow_touch)

text \<open>
  The theorem for C1 at two overlapping robots inside the boundary, with indices 1 and 3.
\<close>

theorem collision_flips_per_event_witness:
  "0 < length [robot_at 0 0 1, robot_at 1 0 3]
   \<and> intersectsBox (bounding_box (robot_at 0 0 1)) (bounding_box (robot_at 1 0 3))
   \<and> \<not> out_of_bounds (robot_at 0 0 1) \<and> \<not> out_of_bounds (robot_at 1 0 3)
   \<and> index (robot_at 0 0 1) = 1 \<and> index (robot_at 1 0 3) = 3
   \<and> index (collision_detection [robot_at 0 0 1, robot_at 1 0 3] ! 0)
        = index ((update_robot_index ^^ flips [robot_at 0 0 1, robot_at 1 0 3] 0) (robot_at 0 0 1))
   \<and> map index (collision_detection [robot_at 0 0 1, robot_at 1 0 3]) = [2, 4]"
proof -
  have h: "intersectsBox (bounding_box (robot_at 0 0 1)) (bounding_box (robot_at 1 0 3))"
    "\<not> out_of_bounds (robot_at 0 0 1)" "\<not> out_of_bounds (robot_at 1 0 3)"
    "index (robot_at 0 0 1) = 1" "index (robot_at 1 0 3) = 3"
    by (simp_all add: bounding_box_robot_at intersectsBox_def vec_def out_of_bounds_robot_at
        index_robot_at)
  show ?thesis
    using h collision_flips_per_event [of 0 "[robot_at 0 0 1, robot_at 1 0 3]"
        "robot_at 0 0 1" "robot_at 1 0 3"]
    by (simp add: index_update_robot_index flip_index_def)
qed

text \<open>
  C1 as stated fails. Two robots with intersecting boxes and indices 1 and 3, the first
  beyond the boundary: the first is flipped twice and ends the pass with index 1. Three
  robots whose boxes intersect pairwise, all with index 1: each is flipped twice and none
  ends the pass flipped.
\<close>

theorem collision_flips_counterexample:
  "intersectsBox (bounding_box (robot_at 21 0 1)) (bounding_box (robot_at (39 / 2) 0 3))
   \<and> index (robot_at 21 0 1) = 1 \<and> index (robot_at (39 / 2) 0 3) = 3
   \<and> map index (collision_detection [robot_at 21 0 1, robot_at (39 / 2) 0 3]) = [1, 4]
   \<and> intersectsBox (bounding_box (robot_at 0 0 1)) (bounding_box (robot_at 1 0 1))
   \<and> intersectsBox (bounding_box (robot_at 0 0 1)) (bounding_box (robot_at 0 1 1))
   \<and> intersectsBox (bounding_box (robot_at 1 0 1)) (bounding_box (robot_at 0 1 1))
   \<and> map index (collision_detection [robot_at 0 0 1, robot_at 1 0 1, robot_at 0 1 1]) = [1, 1, 1]"
  by (simp add: map_index_collision_detection flips_def bounding_box_robot_at intersectsBox_def
      vec_def out_of_bounds_robot_at index_robot_at flip_index_def upt_rec [of 0] upt_rec [of 1]
      upt_rec [of 2] upt_rec [of 3])

text \<open>
  Claim C6, as the code has it. One pass of \<open>collision_detection\<close> leaves the cube
  (position and rotation), both velocities and the stored world position of every robot
  as they were: nothing is clamped. A robot beyond the boundary whose box intersects no
  other robot's box leaves the pass with its index flipped once (1 to 2, 2 to 1, 3 to 4,
  4 to 3) and its piston resynchronised, that is, as \<open>update_robot_index\<close> and then
  \<open>update_piston\<close> make it.
\<close>

theorem boundary_flip_without_clamp:
  "(k < length rs \<longrightarrow>
      cube (collision_detection rs ! k) = cube (rs ! k)
      \<and> angular_velocity (collision_detection rs ! k) = angular_velocity (rs ! k)
      \<and> translational_velocity (collision_detection rs ! k) = translational_velocity (rs ! k)
      \<and> position_in_world (collision_detection rs ! k) = position_in_world (rs ! k))
   \<and> (k < length rs \<and> out_of_bounds (rs ! k)
       \<and> (\<forall>j < length rs. j \<noteq> k \<longrightarrow>
             \<not> intersectsBox (bounding_box (rs ! k)) (bounding_box (rs ! j))) \<longrightarrow>
      collision_detection rs ! k = update_piston (update_robot_index (rs ! k)))
   \<and> (k < length rs \<and> out_of_bounds (rs ! k)
       \<and> (\<forall>j < length rs. j \<noteq> k \<longrightarrow>
             \<not> intersectsBox (bounding_box (rs ! k)) (bounding_box (rs ! j))) \<longrightarrow>
      index (collision_detection rs ! k) =
        (if index (rs ! k) = 1 then 2 else if index (rs ! k) = 2 then 1
         else if index (rs ! k) = 3 then 4 else if index (rs ! k) = 4 then 3
         else index (rs ! k)))"
proof -
  have "flips rs k = 1"
    if "out_of_bounds (rs ! k)"
      "\<forall>j < length rs. j \<noteq> k \<longrightarrow> \<not> intersectsBox (bounding_box (rs ! k)) (bounding_box (rs ! j))"
  proof -
    have "filter (\<lambda>j. j \<noteq> k \<and> intersectsBox (bounding_box (rs ! k)) (bounding_box (rs ! j)))
            [0 ..< length rs] = []"
      using that(2) by (auto simp: filter_empty_conv)
    then show ?thesis using that(1) by (simp add: flips_def)
  qed
  then show ?thesis
    using index_touch [of "rs ! k"]
    by (auto simp: nth_collision_detection funpow_touch_unchanged touch_def flip_index_def)
qed

text \<open>
  The theorem for C6 at a robot standing at x = 21, far from the only other robot.
\<close>

theorem boundary_flip_without_clamp_witness:
  "0 < length [robot_at 21 0 1, robot_at 0 0 3]
   \<and> out_of_bounds ([robot_at 21 0 1, robot_at 0 0 3] ! 0)
   \<and> \<not> intersectsBox (bounding_box (robot_at 21 0 1)) (bounding_box (robot_at 0 0 3))
   \<and> collision_detection [robot_at 21 0 1, robot_at 0 0 3] ! 0
        = update_piston (update_robot_index (robot_at 21 0 1))
   \<and> cube (collision_detection [robot_at 21 0 1, robot_at 0 0 3] ! 0) = cube (robot_at 21 0 1)
   \<and> position (cube (robot_at 21 0 1)) = vec 21 1.3 0
   \<and> index (collision_detection [robot_at 21 0 1, robot_at 0 0 3] ! 0) = 2"
proof -
  have h: "out_of_bounds (robot_at 21 0 1)"
    "\<not> intersectsBox (bounding_box (robot_at 21 0 1)) (bounding_box (robot_at 0 0 3))"
    by (simp_all add: bounding_box_robot_at intersectsBox_def vec_def out_of_bounds_robot_at)
  have "position (cube (robot_at 21 0 1)) = vec 21 1.3 0"
    by (simp add: robot_at_def new_cube_robot_def)
  then show ?thesis
    using h boundary_flip_without_clamp [of 0 "[robot_at 21 0 1, robot_at 0 0 3]"]
    by (simp add: less_Suc_eq touch_unchanged [unfolded touch_def] index_robot_at
        index_update_piston index_update_robot_index flip_index_def)
qed

text \<open>
  C6 as stated fails where the robot beyond the boundary also overlaps another robot: it
  is flipped for the boundary and again for the overlap, and ends the pass with the index
  it had.
\<close>

theorem boundary_flip_counterexample:
  "out_of_bounds (robot_at 0 21 3) \<and> index (robot_at 0 21 3) = 3
   \<and> index (collision_detection [robot_at 0 21 3, robot_at 0 20 4] ! 0) = 3"
proof -
  have "map index (collision_detection [robot_at 0 21 3, robot_at 0 20 4]) = [3, 3]"
    by (simp add: map_index_collision_detection flips_def bounding_box_robot_at intersectsBox_def
      vec_def out_of_bounds_robot_at index_robot_at flip_index_def upt_rec [of 0] upt_rec [of 1]
      upt_rec [of 2])
  then have "map index (collision_detection [robot_at 0 21 3, robot_at 0 20 4]) ! 0 = 3"
    by simp
  then have "index (collision_detection [robot_at 0 21 3, robot_at 0 20 4] ! 0) = 3"
    by (simp add: length_collision_detection)
  then show ?thesis
    by (simp add: out_of_bounds_robot_at index_robot_at)
qed

subsection \<open>The direction index over any run (C5)\<close>

lemma calculate_physics_keeps:
  "index (calculate_physics inp r) = index r"
  "custom_bounding_box (calculate_physics inp r) = custom_bounding_box r"
  "cube (calculate_physics inp r) = cube r"
  "piston_bottom (calculate_physics inp r) = piston_bottom r"
  "bounding_box (calculate_physics inp r) = bounding_box r"
  "position_in_world (calculate_physics inp r) = position_in_world r"
  by (simp_all add: calculate_physics_def Let_def)

lemma setters_keep:
  "index (update_bounding_box sfo r) = index r"
  "index (cube_rotation_update f r) = index r"
  "index (cube_position_update f r) = index r"
  "index (piston_rotation_update f r) = index r"
  "index (piston_position_update f r) = index r"
  "index (get_world_position r) = index r"
  "custom_bounding_box (update_bounding_box sfo r) = custom_bounding_box r"
  "custom_bounding_box (cube_rotation_update f r) = custom_bounding_box r"
  "custom_bounding_box (cube_position_update f r) = custom_bounding_box r"
  "custom_bounding_box (piston_rotation_update f r) = custom_bounding_box r"
  "custom_bounding_box (piston_position_update f r) = custom_bounding_box r"
  "custom_bounding_box (get_world_position r) = custom_bounding_box r"
  by (simp_all add: update_bounding_box_def cube_rotation_update_def cube_position_update_def
      piston_rotation_update_def piston_position_update_def get_world_position_def)

lemma landing_keeps:
  "index (landing_x sfo r) = index r" "index (landing_z sfo r) = index r"
  "custom_bounding_box (landing_x sfo r) = custom_bounding_box r"
  "custom_bounding_box (landing_z sfo r) = custom_bounding_box r"
  by (simp_all add: landing_x_def landing_z_def setters_keep)

lemma away_keeps:
  "index (away_integrate sfo r) = index r" "index (away_piston sfo r) = index r"
  "index (away_tipping sfo r) = index r"
  "custom_bounding_box (away_integrate sfo r) = custom_bounding_box r"
  "custom_bounding_box (away_piston sfo r) = custom_bounding_box r"
  "custom_bounding_box (away_tipping sfo r) = custom_bounding_box r"
  by (simp_all add: away_integrate_def away_piston_def away_tipping_def Let_def setters_keep)

lemma closer_keeps:
  "index (closer_integrate sfo r) = index r" "index (closer_piston sfo r) = index r"
  "index (closer_tipping sfo r) = index r"
  "custom_bounding_box (closer_integrate sfo r) = custom_bounding_box r"
  "custom_bounding_box (closer_piston sfo r) = custom_bounding_box r"
  "custom_bounding_box (closer_tipping sfo r) = custom_bounding_box r"
  by (simp_all add: closer_integrate_def closer_piston_def closer_tipping_def Let_def setters_keep)

lemma left_keeps:
  "index (left_integrate sfo r) = index r" "index (left_piston sfo r) = index r"
  "index (left_tipping sfo r) = index r"
  "custom_bounding_box (left_integrate sfo r) = custom_bounding_box r"
  "custom_bounding_box (left_piston sfo r) = custom_bounding_box r"
  "custom_bounding_box (left_tipping sfo r) = custom_bounding_box r"
  by (simp_all add: left_integrate_def left_piston_def left_tipping_def Let_def setters_keep)

lemma right_keeps:
  "index (right_integrate sfo r) = index r" "index (right_piston sfo r) = index r"
  "index (right_tipping sfo r) = index r"
  "custom_bounding_box (right_integrate sfo r) = custom_bounding_box r"
  "custom_bounding_box (right_piston sfo r) = custom_bounding_box r"
  "custom_bounding_box (right_tipping sfo r) = custom_bounding_box r"
  by (simp_all add: right_integrate_def right_piston_def right_tipping_def Let_def setters_keep)

lemma move_keeps:
  "index (move_away sfo inp r) = index r" "index (move_closer sfo inp r) = index r"
  "index (move_left sfo inp r) = index r" "index (move_right sfo inp r) = index r"
  "custom_bounding_box (move_away sfo inp r) = custom_bounding_box r"
  "custom_bounding_box (move_closer sfo inp r) = custom_bounding_box r"
  "custom_bounding_box (move_left sfo inp r) = custom_bounding_box r"
  "custom_bounding_box (move_right sfo inp r) = custom_bounding_box r"
  by (simp_all add: move_away_def move_closer_def move_left_def move_right_def setters_keep
      landing_keeps away_keeps closer_keeps left_keeps right_keeps calculate_physics_keeps)

lemma index_move: "index (move sfo m inp r) = index r"
  by (cases m) (simp_all add: move_keeps)

lemma index_dispatch: "index (dispatch sfo inp r) = index r"
  by (simp add: dispatch_def move_keeps)

lemma flip_index_range: "n \<in> {1, 2, 3, 4} \<Longrightarrow> flip_index n \<in> {1, 2, 3, 4}"
  by (auto simp: flip_index_def)

lemma funpow_flip_index_range: "n \<in> {1, 2, 3, 4} \<Longrightarrow> (flip_index ^^ m) n \<in> {1, 2, 3, 4}"
  by (induction m) (simp_all only: funpow.simps o_apply id_apply flip_index_range)

lemma run_call_index:
  assumes "k < length rs" "index (rs ! k) \<in> {1, 2, 3, 4}"
  shows "length (run_call sfo c rs) = length rs \<and> index (run_call sfo c rs ! k) \<in> {1, 2, 3, 4}"
proof (cases c)
  case Collision_detection
  then show ?thesis
    using assms funpow_flip_index_range [of "index (rs ! k)" "flips rs k"]
    by (simp add: length_collision_detection nth_collision_detection index_funpow_touch)
next
  case (Assign_initial_direction inputs)
  then show ?thesis
    using assms by (simp add: assign_initial_direction_def index_dispatch)
next
  case (Movement m j inp)
  then show ?thesis
    using assms by (cases "j = k") (simp_all add: index_move)
qed

text \<open>
  Claim C5. A robot of the array whose direction index is one of 1, 2, 3, 4 keeps an
  index among 1, 2, 3, 4 through any sequence of collision passes, dispatches and single
  movement calls; the array keeps its length, so the robot stays at its place \<open>k\<close>.
\<close>

theorem direction_index_invariant:
  assumes "k < length rs" and "index (rs ! k) \<in> {1, 2, 3, 4}"
  shows "length (run_calls sfo calls rs) = length rs
         \<and> index (run_calls sfo calls rs ! k) \<in> {1, 2, 3, 4}"
  using assms unfolding run_calls_def
proof (induction calls arbitrary: rs)
  case Nil
  then show ?case by simp
next
  case (Cons c calls)
  have step: "length (run_call sfo c rs) = length rs"
    "index (run_call sfo c rs ! k) \<in> {1, 2, 3, 4}"
    using run_call_index [OF Cons.prems, of sfo c] by simp_all
  show ?case
    using Cons.IH [of "run_call sfo c rs"] step Cons.prems by simp
qed

text \<open>
  The theorem for C5 at two robots and a sequence of four calls.
\<close>

theorem direction_index_invariant_witness:
  "0 < length [robot_at 0 0 1, robot_at 1 0 3]
   \<and> index ([robot_at 0 0 1, robot_at 1 0 3] ! 0) \<in> {1, 2, 3, 4}
   \<and> index (run_calls setFromObject
        [Collision_detection,
         Assign_initial_direction (\<lambda>i. \<lparr>piston_output = 50, mass = 50, math_random = 1 / 2\<rparr>),
         Movement Left 1 \<lparr>piston_output = 50, mass = 50, math_random = 1 / 2\<rparr>,
         Collision_detection]
        [robot_at 0 0 1, robot_at 1 0 3] ! 0) \<in> {1, 2, 3, 4}"
proof -
  have h: "0 < length [robot_at 0 0 1, robot_at 1 0 3]"
    "index ([robot_at 0 0 1, robot_at 1 0 3] ! 0) \<in> {1, 2, 3, 4}"
    by (simp_all add: index_robot_at)
  show ?thesis
    using h direction_index_invariant [OF h] by blast
qed

subsection \<open>The landing block\<close>



lemma pi_ge_3: "3 \<le> pi"
  using sin_x_le_x [of "pi / 6"] by (simp add: sin_30)


lemma tipping_less_full: "tipping_point_angle < full_rotation"
  using pi_gt_zero by (simp add: full_rotation_def tipping_point_angle_def degToRad_def)

subsection \<open>The physics step (C10, C3)\<close>

lemma calculate_physics_velocities:
  "angular_velocity (calculate_physics inp r) =
     vadd (angular_velocity r)
       (multiplyScalar
         (divideScalar
           (vec (piston_output inp / 100 * axis_rotation_distance * sin angle) 0
                (piston_output inp / 100 * axis_rotation_distance * sin angle))
           ((1 / 6) * (mass inp / 1000) * ((vx robot_size / 100) * (vx robot_size / 100))))
         time_step)"
  "translational_velocity (calculate_physics inp r) =
     vadd (translational_velocity r)
       (multiplyScalar
         (divideScalar
           (vec (piston_output inp / 100 * cos angle) 0 (piston_output inp / 100 * cos angle))
           (mass inp / 1000))
         time_step)"
  by (simp_all add: calculate_physics_def Let_def)

lemma torque_grav_calculate_physics:
  "torque_grav (calculate_physics inp r) =
     vec 0 (- (mass inp / 1000) * axis_rotation_distance * GRAVITY_ACCELERATION
              * sin (vx (rotation (cube r)))) 0"
  by (simp add: calculate_physics_def Let_def)

lemma calculate_physics_accelerations:
  "angular_acceleration (calculate_physics inp r) =
     divideScalar
       (vec (piston_output inp / 100 * axis_rotation_distance * sin angle) 0
            (piston_output inp / 100 * axis_rotation_distance * sin angle))
       ((1 / 6) * (mass inp / 1000) * ((vx robot_size / 100) * (vx robot_size / 100)))"
  "translational_acceleration (calculate_physics inp r) =
     divideScalar
       (vec (piston_output inp / 100 * cos angle) 0 (piston_output inp / 100 * cos angle))
       (mass inp / 1000)"
  by (simp_all add: calculate_physics_def Let_def)

text \<open>
  Claim C10. Two calls of \<open>_calculate_physics\<close> that read the same mass and piston force
  and start from the same stored velocities leave the same angular and translational
  velocities, and the same accelerations, whatever the rotation and position of the two
  cubes. The gravity torque is computed from the tilt and stored in \<open>torque_grav\<close>, and
  used nowhere.
\<close>

theorem physics_ignores_pose:
  assumes "mass inp1 = mass inp2" and "piston_output inp1 = piston_output inp2"
    and "angular_velocity r1 = angular_velocity r2"
    and "translational_velocity r1 = translational_velocity r2"
  shows "angular_velocity (calculate_physics inp1 r1) = angular_velocity (calculate_physics inp2 r2)
       \<and> translational_velocity (calculate_physics inp1 r1)
           = translational_velocity (calculate_physics inp2 r2)
       \<and> torque_grav (calculate_physics inp1 r1) =
           vec 0 (- (mass inp1 / 1000) * axis_rotation_distance * GRAVITY_ACCELERATION
                    * sin (vx (rotation (cube r1)))) 0
       \<and> angular_acceleration (calculate_physics inp1 r1)
           = angular_acceleration (calculate_physics inp2 r2)
       \<and> translational_acceleration (calculate_physics inp1 r1)
           = translational_acceleration (calculate_physics inp2 r2)"
  using assms
  by (simp add: calculate_physics_velocities torque_grav_calculate_physics
      calculate_physics_accelerations)

text \<open>
  The theorem for C10 at a cube tilted by half a radian at the origin and an upright cube
  elsewhere.
\<close>

theorem physics_ignores_pose_witness:
  "mass push_input = mass (push_input\<lparr>math_random := 0\<rparr>)
   \<and> piston_output push_input = piston_output (push_input\<lparr>math_random := 0\<rparr>)
   \<and> angular_velocity (tilted (1 / 2) 0) = angular_velocity (robot_at 5 7 2)
   \<and> translational_velocity (tilted (1 / 2) 0) = translational_velocity (robot_at 5 7 2)
   \<and> rotation (cube (tilted (1 / 2) 0)) = vec (1 / 2) 0 0
   \<and> cube (robot_at 5 7 2) = \<lparr>position = vec 5 1.3 7, rotation = vec 0 0 0\<rparr>
   \<and> angular_velocity (calculate_physics push_input (tilted (1 / 2) 0))
       = angular_velocity (calculate_physics (push_input\<lparr>math_random := 0\<rparr>) (robot_at 5 7 2))
   \<and> translational_velocity (calculate_physics push_input (tilted (1 / 2) 0))
       = translational_velocity (calculate_physics (push_input\<lparr>math_random := 0\<rparr>) (robot_at 5 7 2))
   \<and> angular_acceleration (calculate_physics push_input (tilted (1 / 2) 0))
       = angular_acceleration (calculate_physics (push_input\<lparr>math_random := 0\<rparr>) (robot_at 5 7 2))
   \<and> translational_acceleration (calculate_physics push_input (tilted (1 / 2) 0))
       = translational_acceleration (calculate_physics (push_input\<lparr>math_random := 0\<rparr>) (robot_at 5 7 2))"
proof -
  have h: "mass push_input = mass (push_input\<lparr>math_random := 0\<rparr>)"
    "piston_output push_input = piston_output (push_input\<lparr>math_random := 0\<rparr>)"
    "angular_velocity (tilted (1 / 2) 0) = angular_velocity (robot_at 5 7 2)"
    "translational_velocity (tilted (1 / 2) 0) = translational_velocity (robot_at 5 7 2)"
    by (simp_all add: tilted_def robot_at_def new_cube_robot_def)
  have g: "rotation (cube (tilted (1 / 2) 0)) = vec (1 / 2) 0 0"
    "cube (robot_at 5 7 2) = \<lparr>position = vec 5 1.3 7, rotation = vec 0 0 0\<rparr>"
    by (simp_all add: tilted_def robot_at_def new_cube_robot_def)
  show ?thesis
    using h g physics_ignores_pose [OF h] by simp
qed

lemma get_world_position_keeps:
  "angular_velocity (get_world_position r) = angular_velocity r"
  "translational_velocity (get_world_position r) = translational_velocity r"
  "cube (get_world_position r) = cube r"
  by (simp_all add: get_world_position_def)

lemma away_integrate_effect:
  "angular_velocity (away_integrate sfo r) = angular_velocity r"
  "translational_velocity (away_integrate sfo r) = translational_velocity r"
  "vx (rotation (cube (away_integrate sfo r)))
     = vx (rotation (cube r)) - vz (angular_velocity r) * time_step"
  by (simp_all add: away_integrate_def update_bounding_box_def cube_position_update_def
      cube_rotation_update_def)

lemma away_piston_effect:
  "angular_velocity (away_piston sfo r) = angular_velocity r"
  "translational_velocity (away_piston sfo r) = translational_velocity r"
  "cube (away_piston sfo r) = cube r"
  by (simp_all add: away_piston_def update_bounding_box_def piston_position_update_def
      piston_rotation_update_def)

lemma away_tipping_idle:
  "\<bar>vx (rotation (cube r))\<bar> < tipping_point_angle \<Longrightarrow> away_tipping sfo r = r"
  by (simp add: away_tipping_def)

lemma landing_x_idle:
  "\<bar>vx (rotation (cube r))\<bar> < full_rotation \<Longrightarrow> landing_x sfo r = r"
  by (simp add: landing_x_def)

lemma sin_cos_angle: "sin angle = sqrt 2 / 2" "cos angle = sqrt 2 / 2"
  by (simp_all add: angle_def tipping_point_angle_def degToRad_def sin_45 cos_45)

lemma degToRad_45: "degToRad 45 = pi / 4"
  by (simp add: degToRad_def)

text \<open>
  Claim C3. From zero angular and translational velocity and zero tilt, one frame of
  \<open>move_away\<close> with mass 0.05 and piston force 0.5 leaves the stored velocities at
  acceleration times 1/360, where the angular acceleration is
  (force * moment arm * sin 45) / ((1/6) * mass * (edge length / 100) squared) on x and z
  and the translational acceleration is (force * cos 45) / mass on x and z: the tilt
  after the first integration is below the tipping threshold, so neither the tipping
  block nor the landing block runs. The last two equations give the same values with the
  moment arm 0.01 and the edge length 2 written out.
\<close>

theorem move_away_first_frame:
  assumes "angular_velocity r = vec 0 0 0" and "translational_velocity r = vec 0 0 0"
    and "vx (rotation (cube r)) = 0"
    and "mass inp / 1000 = 0.05" and "piston_output inp / 100 = 0.5"
  shows "angular_velocity (move_away sfo inp r) =
           multiplyScalar
             (vec ((0.5 * axis_rotation_distance * sin (degToRad 45))
                     / ((1 / 6) * 0.05 * (vx robot_size / 100)\<^sup>2)) 0
                  ((0.5 * axis_rotation_distance * sin (degToRad 45))
                     / ((1 / 6) * 0.05 * (vx robot_size / 100)\<^sup>2)))
             (1 / 360)
       \<and> translational_velocity (move_away sfo inp r) =
           multiplyScalar
             (vec ((0.5 * cos (degToRad 45)) / 0.05) 0 ((0.5 * cos (degToRad 45)) / 0.05))
             (1 / 360)
       \<and> angular_velocity (move_away sfo inp r) =
           vec ((0.5 * 0.01 * sin (pi / 4)) / ((1 / 6) * 0.05 * (2 / 100)\<^sup>2) * (1 / 360)) 0
               ((0.5 * 0.01 * sin (pi / 4)) / ((1 / 6) * 0.05 * (2 / 100)\<^sup>2) * (1 / 360))
       \<and> translational_velocity (move_away sfo inp r) =
           vec ((0.5 * cos (pi / 4)) / 0.05 * (1 / 360)) 0 ((0.5 * cos (pi / 4)) / 0.05 * (1 / 360))"
proof -
  let ?s1 = "calculate_physics inp r"
  let ?s2 = "away_integrate sfo ?s1"
  let ?s3 = "away_piston sfo ?s2"
  have s45: "sin (pi / 4) = sqrt 2 / 2" "cos (pi / 4) = sqrt 2 / 2"
    by (simp_all add: sin_45 cos_45)
  have av1: "angular_velocity ?s1 = vec (25 * sqrt 2 / 12) 0 (25 * sqrt 2 / 12)"
    using assms
    by (simp add: calculate_physics_velocities sin_cos_angle axis_rotation_distance_def
        robot_size_def time_step_def vec_def vadd_def multiplyScalar_def divideScalar_def)
  have tv1: "translational_velocity ?s1 = vec (sqrt 2 / 72) 0 (sqrt 2 / 72)"
    using assms
    by (simp add: calculate_physics_velocities sin_cos_angle
        time_step_def vec_def vadd_def multiplyScalar_def divideScalar_def)
  have rot2: "vx (rotation (cube ?s2)) = - (5 * sqrt 2 / 864)"
    using assms(3)
    by (simp add: away_integrate_effect av1 calculate_physics_keeps time_step_def vec_def)
  have "sqrt 2 < 2"
    by (simp add: real_less_lsqrt)
  then have "5 * sqrt 2 / 864 < 3 / 4" "0 \<le> 5 * sqrt 2 / 864"
    by simp_all
  moreover have "3 / 4 \<le> tipping_point_angle"
    using pi_ge_3 by (simp add: tipping_point_angle_def degToRad_def)
  ultimately have small: "\<bar>vx (rotation (cube ?s3))\<bar> < tipping_point_angle"
    by (simp add: away_piston_effect rot2)
  have "move_away sfo inp r = get_world_position ?s3"
    using small tipping_less_full
    by (simp add: move_away_def away_tipping_idle landing_x_idle)
  then show ?thesis
    by (simp add: get_world_position_keeps away_piston_effect away_integrate_effect av1 tv1
        degToRad_45 s45 axis_rotation_distance_def robot_size_def vec_def multiplyScalar_def
        power2_eq_square)
qed

text \<open>
  The theorem for C3 at a newly placed robot.
\<close>

theorem move_away_first_frame_witness:
  "angular_velocity (robot_at 0 0 1) = vec 0 0 0
   \<and> translational_velocity (robot_at 0 0 1) = vec 0 0 0
   \<and> vx (rotation (cube (robot_at 0 0 1))) = 0
   \<and> mass push_input / 1000 = 0.05 \<and> piston_output push_input / 100 = 0.5
   \<and> angular_velocity (move_away setFromObject push_input (robot_at 0 0 1)) =
           multiplyScalar
             (vec ((0.5 * axis_rotation_distance * sin (degToRad 45))
                     / ((1 / 6) * 0.05 * (vx robot_size / 100)\<^sup>2)) 0
                  ((0.5 * axis_rotation_distance * sin (degToRad 45))
                     / ((1 / 6) * 0.05 * (vx robot_size / 100)\<^sup>2)))
             (1 / 360)
   \<and> translational_velocity (move_away setFromObject push_input (robot_at 0 0 1)) =
           multiplyScalar
             (vec ((0.5 * cos (degToRad 45)) / 0.05) 0 ((0.5 * cos (degToRad 45)) / 0.05))
             (1 / 360)
   \<and> angular_velocity (move_away setFromObject push_input (robot_at 0 0 1)) =
           vec ((0.5 * 0.01 * sin (pi / 4)) / ((1 / 6) * 0.05 * (2 / 100)\<^sup>2) * (1 / 360)) 0
               ((0.5 * 0.01 * sin (pi / 4)) / ((1 / 6) * 0.05 * (2 / 100)\<^sup>2) * (1 / 360))
   \<and> translational_velocity (move_away setFromObject push_input (robot_at 0 0 1)) =
           vec ((0.5 * cos (pi / 4)) / 0.05 * (1 / 360)) 0 ((0.5 * cos (pi / 4)) / 0.05 * (1 / 360))"
proof -
  have h: "angular_velocity (robot_at 0 0 1) = vec 0 0 0"
    "translational_velocity (robot_at 0 0 1) = vec 0 0 0"
    "vx (rotation (cube (robot_at 0 0 1))) = 0"
    "mass push_input / 1000 = 0.05" "piston_output push_input / 100 = 0.5"
    by (simp_all add: robot_at_def new_cube_robot_def push_input_def vec_def)
  show ?thesis
    using h move_away_first_frame [OF h, of setFromObject] by blast
qed

subsection \<open>The tipping block (C4)\<close>

lemma tipping_le_1: "tipping_point_angle \<le> 1"
  using pi_less_4 by (simp add: tipping_point_angle_def degToRad_def)

lemma full_rotation_ge: "3 / 2 \<le> full_rotation"
  using pi_ge_3 by (simp add: full_rotation_def degToRad_def)

lemma tipping_rotation:
  "vz (rotation (cube (left_tipping sfo r))) =
     (if tipping_point_angle \<le> \<bar>vz (rotation (cube r))\<bar>
      then vz (rotation (cube r)) + vx (angular_velocity r) * time_step
      else vz (rotation (cube r)))"
  "vz (rotation (cube (right_tipping sfo r))) =
     (if tipping_point_angle \<le> \<bar>vz (rotation (cube r))\<bar>
      then vz (rotation (cube r)) - vx (angular_velocity r) * time_step
      else vz (rotation (cube r)))"
  "vx (rotation (cube (away_tipping sfo r))) =
     (if tipping_point_angle \<le> \<bar>vx (rotation (cube r))\<bar>
      then vx (rotation (cube r)) - (vy (angular_velocity r) + 49 / 180) * time_step
      else vx (rotation (cube r)))"
  "vx (rotation (cube (closer_tipping sfo r))) =
     (if tipping_point_angle \<le> \<bar>vx (rotation (cube r))\<bar>
      then vx (rotation (cube r)) + (vy (angular_velocity r) + 49 / 180) * time_step
      else vx (rotation (cube r)))"
  by (simp_all add: left_tipping_def right_tipping_def away_tipping_def closer_tipping_def
      Let_def update_bounding_box_def cube_position_update_def cube_rotation_update_def
      vadd_def vec_def multiplyScalar_def gravity_def GRAVITY_ACCELERATION_def time_step_def)

lemma tipping_frames:
  "angular_velocity (move_left sfo still_input (tilted 0 1)) = vec 0 (49 / 180) 0
   \<and> vz (rotation (cube (move_left sfo still_input (tilted 0 1)))) = 1
   \<and> angular_velocity (move_right sfo still_input (tilted 0 (-1))) = vec 0 (49 / 180) 0
   \<and> vz (rotation (cube (move_right sfo still_input (tilted 0 (-1))))) = -1
   \<and> angular_velocity (move_away sfo still_input (tilted (-1) 0)) = vec 0 (49 / 180) 0
   \<and> vx (rotation (cube (move_away sfo still_input (tilted (-1) 0)))) = -1 - 49 / 64800
   \<and> angular_velocity (move_closer sfo still_input (tilted 1 0)) = vec 0 (49 / 180) 0
   \<and> vx (rotation (cube (move_closer sfo still_input (tilted 1 0)))) = 1 + 49 / 64800"
  using tipping_le_1 full_rotation_ge
  by (simp add: tilted_def still_input_def robot_at_def new_cube_robot_def
      move_left_def move_right_def move_away_def move_closer_def
      calculate_physics_def Let_def landing_x_def landing_z_def get_world_position_def
      away_integrate_def away_piston_def away_tipping_def
      closer_integrate_def closer_piston_def closer_tipping_def
      left_integrate_def left_piston_def left_tipping_def
      right_integrate_def right_piston_def right_tipping_def
      update_bounding_box_def cube_rotation_update_def cube_position_update_def
      piston_rotation_update_def piston_position_update_def
      vec_def vadd_def multiplyScalar_def divideScalar_def gravity_def GRAVITY_ACCELERATION_def
      time_step_def)

text \<open>
  Claim C4 fails on \<open>move_left\<close> and \<open>move_right\<close>. Gravity is added to the y
  component of the angular velocity. The tipping block of \<open>move_away\<close> and
  \<open>move_closer\<close> rotates the cube by that y component, the one gravity has just
  changed; the tipping block of \<open>move_left\<close> and \<open>move_right\<close> rotates it by the x
  component, which gravity never changes (the first four equations, for every state: the
  component the rotation reads is the one the robot had before gravity was added, and
  gravity's 98 / 360 enters the rotation in \<open>move_away\<close> and \<open>move_closer\<close> only). With no piston force and a cube at rest tilted
  by 1 radian (between the threshold and a quarter turn), one frame of \<open>move_left\<close> or
  \<open>move_right\<close> adds gravity to the angular velocity and leaves the tilt where it was,
  while one frame of \<open>move_away\<close> or \<open>move_closer\<close> moves the tilt on by
  (98 / 360) / 360.
\<close>

theorem tipping_left_right_ignore_gravity:
  "vz (rotation (cube (left_tipping sfo r))) =
     (if tipping_point_angle \<le> \<bar>vz (rotation (cube r))\<bar>
      then vz (rotation (cube r)) + vx (angular_velocity r) * time_step
      else vz (rotation (cube r)))
   \<and> vz (rotation (cube (right_tipping sfo r))) =
     (if tipping_point_angle \<le> \<bar>vz (rotation (cube r))\<bar>
      then vz (rotation (cube r)) - vx (angular_velocity r) * time_step
      else vz (rotation (cube r)))
   \<and> vx (rotation (cube (away_tipping sfo r))) =
     (if tipping_point_angle \<le> \<bar>vx (rotation (cube r))\<bar>
      then vx (rotation (cube r)) - (vy (angular_velocity r) + 49 / 180) * time_step
      else vx (rotation (cube r)))
   \<and> vx (rotation (cube (closer_tipping sfo r))) =
     (if tipping_point_angle \<le> \<bar>vx (rotation (cube r))\<bar>
      then vx (rotation (cube r)) + (vy (angular_velocity r) + 49 / 180) * time_step
      else vx (rotation (cube r)))
   \<and> angular_velocity (move_left sfo still_input (tilted 0 1)) = vec 0 (49 / 180) 0
   \<and> vz (rotation (cube (move_left sfo still_input (tilted 0 1)))) = 1
   \<and> angular_velocity (move_right sfo still_input (tilted 0 (-1))) = vec 0 (49 / 180) 0
   \<and> vz (rotation (cube (move_right sfo still_input (tilted 0 (-1))))) = -1
   \<and> angular_velocity (move_away sfo still_input (tilted (-1) 0)) = vec 0 (49 / 180) 0
   \<and> vx (rotation (cube (move_away sfo still_input (tilted (-1) 0)))) = -1 - 49 / 64800
   \<and> angular_velocity (move_closer sfo still_input (tilted 1 0)) = vec 0 (49 / 180) 0
   \<and> vx (rotation (cube (move_closer sfo still_input (tilted 1 0)))) = 1 + 49 / 64800"
  using tipping_frames [of sfo] tipping_rotation [of sfo r] by blast

subsection \<open>The number of robots built (C8)\<close>

lemma init_loop_NaN: "init_loop i NaN draws arr = Inr arr"
  by (subst init_loop.simps) simp

lemma init_loop_done: "\<not> real i < r \<Longrightarrow> init_loop i (Num r) draws arr = Inr arr"
  by (subst init_loop.simps) simp

lemma init_loop_step:
  "real i < r \<Longrightarrow> init_loop i (Num r) draws arr =
     (case place_robot arr draws of
        Inl e \<Rightarrow> Inl e
      | Inr (robot, draws1) \<Rightarrow>
         (case draws1 of
            [] \<Rightarrow> Inl Out_of_draws
          | u # draws2 \<Rightarrow>
             if 0 \<le> u \<and> u < 1 then
               init_loop (Suc i) (Num r) draws2
                 (arr @ [robot\<lparr>index := movement_indices ! nat \<lfloor>u * 4\<rfloor>\<rparr>])
             else Inl Bad_draw))"
  by (subst init_loop.simps) simp

lemma length_init_loop:
  "init_loop i n draws arr = Inr rs \<Longrightarrow>
   length rs = length arr + (case n of Num r \<Rightarrow> nat \<lceil>r\<rceil> - i | NaN \<Rightarrow> 0)"
proof (induction i n draws arr rule: init_loop.induct)
  case (1 i n draws arr)
  show ?case
  proof (cases "js_less (real i) n")
    case False
    then have "rs = arr"
      using "1.prems" by (subst (asm) init_loop.simps) simp
    moreover have "(case n of Num r \<Rightarrow> nat \<lceil>r\<rceil> - i | NaN \<Rightarrow> 0) = 0"
    proof (cases n)
      case (Num r)
      with False have "r \<le> real i" by simp
      then have "nat \<lceil>r\<rceil> \<le> i" by linarith
      with Num show ?thesis by simp
    next
      case NaN
      then show ?thesis by simp
    qed
    ultimately show ?thesis by simp
  next
    case True
    then obtain r where n: "n = Num r" and lt: "real i < r"
      by (cases n) auto
    from lt have i: "i < nat \<lceil>r\<rceil>" by linarith
    from "1.prems" True obtain robot draws1 u draws2 where
      p: "place_robot arr draws = Inr (robot, draws1)" and d: "draws1 = u # draws2"
      and u: "0 \<le> u \<and> u < 1"
      and rec: "init_loop (Suc i) n draws2
                 (arr @ [robot\<lparr>index := movement_indices ! nat \<lfloor>u * 4\<rfloor>\<rparr>]) = Inr rs"
      by (subst (asm) init_loop.simps) (auto split: sum.splits list.splits if_splits)
    have "length rs = length (arr @ [robot\<lparr>index := movement_indices ! nat \<lfloor>u * 4\<rfloor>\<rparr>])
        + (case n of Num r \<Rightarrow> nat \<lceil>r\<rceil> - Suc i | NaN \<Rightarrow> 0)"
      using "1.IH" [OF True p refl d u rec] .
    then show ?thesis
      using n i by simp
  qed
qed

lemma place_first_robot:
  "place_robot [] (u1 # u2 # draws) = Inr (create_robots (u1 * 36 - 18) 1.3 (u2 * 36 - 18), draws)"
  by (simp add: Let_def)

lemma init_engine_default:
  assumes "0 \<le> u" "u < 1"
  shows "initialize_robots (u1 # u2 # u # draws) (Number 1)
       = Inr [(create_robots (u1 * 36 - 18) 1.3 (u2 * 36 - 18))
                \<lparr>index := movement_indices ! nat \<lfloor>u * 4\<rfloor>\<rparr>]"
  using assms
  by (simp add: initialize_robots_def to_number_def init_loop_step place_first_robot
      init_loop_done del: place_robot.simps)

text \<open>
  Claim C8, as the code has it. With \<open>num_robots\<close> absent from the URL, or empty, one
  robot is built (three draws are enough: two for the position, one for the index). With
  \<open>num_robots\<close> a string of decimal digits, a run of \<open>initialize_robots\<close> that returns
  has built as many robots as the digits say. With \<open>num_robots\<close> a string that begins
  with a letter other than \<open>I\<close>, which converts to no number, the loop bound is
  not-a-number and no robot is built.
\<close>

theorem body_count:
  "(0 \<le> u \<and> u < 1 \<longrightarrow>
      (\<exists>robot. init_engine None (u1 # u2 # u # draws) = Inr [robot])
      \<and> (\<exists>robot. init_engine (Some []) (u1 # u2 # u # draws) = Inr [robot]))
   \<and> (s \<noteq> [] \<and> list_all is_digit s \<and> init_engine (Some s) ds = Inr arr \<longrightarrow>
        length arr = decimal s)
   \<and> (s \<noteq> [] \<and> is_letter (hd s) \<and> hd s \<noteq> CHR ''I'' \<longrightarrow>
        init_engine (Some s) ds = Inr [])"
proof (intro conjI impI)
  assume "0 \<le> u \<and> u < 1"
  then show "\<exists>robot. init_engine None (u1 # u2 # u # draws) = Inr [robot]"
    "\<exists>robot. init_engine (Some []) (u1 # u2 # u # draws) = Inr [robot]"
    by (simp_all add: init_engine_def num_robots_create_def init_engine_default)
next
  assume a: "s \<noteq> [] \<and> list_all is_digit s \<and> init_engine (Some s) ds = Inr arr"
  then have "s \<noteq> []" "list_all is_digit s" "init_engine (Some s) ds = Inr arr"
    by simp_all
  then have "init_loop 0 (Num (real (decimal s))) ds [] = Inr arr"
    by (simp add: init_engine_def num_robots_create_def initialize_robots_def to_number_def
        string_to_number_def)
  from length_init_loop [OF this] show "length arr = decimal s"
    by simp
next
  assume a: "s \<noteq> [] \<and> is_letter (hd s) \<and> hd s \<noteq> CHR ''I''"
  then have b: "s \<noteq> []" "is_letter (hd s)" "hd s \<noteq> CHR ''I''"
    by simp_all
  then have "\<not> is_digit (hd s)"
    by (auto simp: is_letter_def is_digit_def)
  then have "\<not> list_all is_digit s"
    using b(1) by (cases s) auto
  then show "init_engine (Some s) ds = Inr []"
    using b
    by (simp add: init_engine_def num_robots_create_def initialize_robots_def to_number_def
        string_to_number_def init_loop_NaN)
qed

text \<open>
  C8 as stated fails at a parameter that is no number: \<open>num_robots=abc\<close> gives the empty
  array, not one robot.
\<close>

theorem body_count_counterexample:
  "init_engine (Some ''abc'') [1 / 2, 1 / 2, 1 / 2] = Inr []"
  by (simp add: init_engine_def num_robots_create_def initialize_robots_def to_number_def
      string_to_number_def init_loop_NaN is_digit_def is_letter_def)

lemma bounding_box_create_robots:
  "bounding_box (create_robots x y z)
     = \<lparr>box_min = vec (x - 1) (y - 1) (z - 1), box_max = vec (x + 1) (y + 1) (z + 1)\<rparr>"
  by (simp add: create_robots_def new_cube_robot_def bare_cube_box_unrotated)

lemma init_engine_two:
  "init_engine (Some ''2'') [0, 0, 0, 1 / 2, 1 / 2, 1 / 2]
     = Inr [(create_robots (-18) 1.3 (-18))\<lparr>index := 1\<rparr>, (create_robots 0 1.3 0)\<lparr>index := 3\<rparr>]"
  by (simp add: init_engine_def num_robots_create_def initialize_robots_def to_number_def
      string_to_number_def is_digit_def decimal_def init_loop_step init_loop_done Let_def
      bounding_box_create_robots intersectsBox_def vec_def movement_indices_def)

text \<open>
  The theorem for C8 at an absent and an empty parameter, at \<open>num_robots=2\<close> with draws
  that place two robots apart, and at \<open>num_robots=abc\<close>.
\<close>

theorem body_count_witness:
  "(0::real) \<le> 1 / 2 \<and> (1 / 2 :: real) < 1
   \<and> (\<exists>robot. init_engine None [1 / 2, 1 / 2, 1 / 2] = Inr [robot])
   \<and> (\<exists>robot. init_engine (Some []) [1 / 2, 1 / 2, 1 / 2] = Inr [robot])
   \<and> ''2'' \<noteq> [] \<and> list_all is_digit ''2''
   \<and> init_engine (Some ''2'') [0, 0, 0, 1 / 2, 1 / 2, 1 / 2]
       = Inr [(create_robots (-18) 1.3 (-18))\<lparr>index := 1\<rparr>, (create_robots 0 1.3 0)\<lparr>index := 3\<rparr>]
   \<and> length [(create_robots (-18) 1.3 (-18))\<lparr>index := 1\<rparr>, (create_robots 0 1.3 0)\<lparr>index := 3\<rparr>]
       = decimal ''2''
   \<and> ''abc'' \<noteq> [] \<and> is_letter (hd ''abc'') \<and> hd ''abc'' \<noteq> CHR ''I''
   \<and> init_engine (Some ''abc'') [] = Inr []"
proof -
  have h1: "(0::real) \<le> 1 / 2 \<and> (1 / 2 :: real) < 1"
    by simp
  have h2: "''2'' \<noteq> [] \<and> list_all is_digit ''2''
     \<and> init_engine (Some ''2'') [0, 0, 0, 1 / 2, 1 / 2, 1 / 2]
       = Inr [(create_robots (-18) 1.3 (-18))\<lparr>index := 1\<rparr>, (create_robots 0 1.3 0)\<lparr>index := 3\<rparr>]"
    by (simp add: init_engine_two) (simp add: is_digit_def)
  have h3: "''abc'' \<noteq> [] \<and> is_letter (hd ''abc'') \<and> hd ''abc'' \<noteq> CHR ''I''"
    by (simp add: is_letter_def)
  show ?thesis
    using h1 h2 h3
      body_count [of "1 / 2" "1 / 2" "1 / 2" "[]" "''2''" "[0, 0, 0, 1 / 2, 1 / 2, 1 / 2]"
        "[(create_robots (-18) 1.3 (-18))\<lparr>index := 1\<rparr>, (create_robots 0 1.3 0)\<lparr>index := 3\<rparr>]"]
      body_count [of "1 / 2" "1 / 2" "1 / 2" "[]" "''abc''" "[]" "[]"]
    by blast
qed

subsection \<open>What the movement functions do to the boxes\<close>



lemma box_after_update:
  "bounding_box (update_bounding_box sfo r)
     = sfo (cube (update_bounding_box sfo r)) (piston_bottom (update_bounding_box sfo r))"
  by (simp add: update_bounding_box_def)

lemma box_after_integrate:
  "bounding_box (away_integrate sfo r)
     = sfo (cube (away_integrate sfo r)) (piston_bottom (away_integrate sfo r))"
  "bounding_box (closer_integrate sfo r)
     = sfo (cube (closer_integrate sfo r)) (piston_bottom (closer_integrate sfo r))"
  "bounding_box (left_integrate sfo r)
     = sfo (cube (left_integrate sfo r)) (piston_bottom (left_integrate sfo r))"
  "bounding_box (right_integrate sfo r)
     = sfo (cube (right_integrate sfo r)) (piston_bottom (right_integrate sfo r))"
  by (simp_all add: away_integrate_def closer_integrate_def left_integrate_def
      right_integrate_def box_after_update)

lemma box_after_phase:
  assumes "bounding_box r = sfo (cube r) (piston_bottom r)"
  shows
    "bounding_box (away_piston sfo r) = sfo (cube (away_piston sfo r)) (piston_bottom (away_piston sfo r))"
    "bounding_box (away_tipping sfo r) = sfo (cube (away_tipping sfo r)) (piston_bottom (away_tipping sfo r))"
    "bounding_box (closer_piston sfo r) = sfo (cube (closer_piston sfo r)) (piston_bottom (closer_piston sfo r))"
    "bounding_box (closer_tipping sfo r) = sfo (cube (closer_tipping sfo r)) (piston_bottom (closer_tipping sfo r))"
    "bounding_box (left_piston sfo r) = sfo (cube (left_piston sfo r)) (piston_bottom (left_piston sfo r))"
    "bounding_box (left_tipping sfo r) = sfo (cube (left_tipping sfo r)) (piston_bottom (left_tipping sfo r))"
    "bounding_box (right_piston sfo r) = sfo (cube (right_piston sfo r)) (piston_bottom (right_piston sfo r))"
    "bounding_box (right_tipping sfo r) = sfo (cube (right_tipping sfo r)) (piston_bottom (right_tipping sfo r))"
    "bounding_box (landing_x sfo r) = sfo (cube (landing_x sfo r)) (piston_bottom (landing_x sfo r))"
    "bounding_box (landing_z sfo r) = sfo (cube (landing_z sfo r)) (piston_bottom (landing_z sfo r))"
    "bounding_box (get_world_position r)
       = sfo (cube (get_world_position r)) (piston_bottom (get_world_position r))"
  using assms
  by (simp_all add: away_piston_def away_tipping_def closer_piston_def closer_tipping_def
      left_piston_def left_tipping_def right_piston_def right_tipping_def landing_x_def
      landing_z_def get_world_position_def Let_def box_after_update)

lemma box_after_move:
  "bounding_box (move sfo m inp r) = sfo (cube (move sfo m inp r)) (piston_bottom (move sfo m inp r))"
  by (cases m)
     (simp_all add: move_away_def move_closer_def move_left_def move_right_def
        box_after_phase box_after_integrate)



subsection \<open>Landing: an overshoot in the first integration\<close>














subsection \<open>Initial placement\<close>

lemma place_robot_apart:
  "place_robot arr draws = Inr (robot, rest) \<Longrightarrow>
   \<forall>c \<in> set arr. \<not> intersectsBox (bounding_box robot) (bounding_box c)"
proof (induction arr draws rule: place_robot.induct)
  case (1 arr u1 u2 draws)
  then show ?case
    by (auto simp: Let_def list_ex_iff split: if_splits)
qed simp_all

lemma boxes_apart_snoc:
  assumes "boxes_apart arr" and "\<forall>c \<in> set arr. \<not> intersectsBox (bounding_box r) (bounding_box c)"
  shows "boxes_apart (arr @ [r])"
  unfolding boxes_apart_def
proof (intro allI impI)
  fix i j
  assume i: "i < length (arr @ [r])" and j: "j < length (arr @ [r])" and ne: "i \<noteq> j"
  consider "i < length arr" "j < length arr" | "i = length arr" "j < length arr"
    | "i < length arr" "j = length arr"
    using i j ne by (cases "i = length arr"; cases "j = length arr") auto
  then show "\<not> intersectsBox (bounding_box ((arr @ [r]) ! i)) (bounding_box ((arr @ [r]) ! j))"
  proof cases
    case 1
    then show ?thesis
      using assms(1) ne by (simp add: boxes_apart_def nth_append)
  next
    case 2
    then show ?thesis
      using assms(2) by (simp add: nth_append)
  next
    case 3
    then have "\<not> intersectsBox (bounding_box r) (bounding_box (arr ! i))"
      using assms(2) by simp
    then show ?thesis
      using 3 by (simp add: nth_append intersectsBox_sym [of "bounding_box (arr ! i)" "bounding_box r"])
  qed
qed

lemma movement_index_range:
  fixes u :: real
  assumes "0 \<le> u" and "u < 1"
  shows "movement_indices ! nat \<lfloor>u * 4\<rfloor> \<in> {1, 2, 3, 4}"
proof -
  have "0 \<le> \<lfloor>u * 4\<rfloor>" "\<lfloor>u * 4\<rfloor> < 4"
    using assms by (simp_all add: floor_less_iff)
  then have "\<lfloor>u * 4\<rfloor> = 0 \<or> \<lfloor>u * 4\<rfloor> = 1 \<or> \<lfloor>u * 4\<rfloor> = 2 \<or> \<lfloor>u * 4\<rfloor> = 3"
    by linarith
  then show ?thesis
    by (auto simp: movement_indices_def)
qed

lemma init_loop_placement:
  "init_loop i n draws arr = Inr rs \<Longrightarrow> boxes_apart arr \<Longrightarrow>
   \<forall>r \<in> set arr. index r \<in> {1, 2, 3, 4} \<Longrightarrow>
   boxes_apart rs \<and> (\<forall>r \<in> set rs. index r \<in> {1, 2, 3, 4})"
proof (induction i n draws arr rule: init_loop.induct)
  case (1 i n draws arr)
  show ?case
  proof (cases "js_less (real i) n")
    case False
    then have "rs = arr"
      using "1.prems"(1) by (subst (asm) init_loop.simps) simp
    then show ?thesis using "1.prems" by simp
  next
    case True
    from "1.prems"(1) True obtain robot draws1 u draws2 where
      p: "place_robot arr draws = Inr (robot, draws1)" and d: "draws1 = u # draws2"
      and u: "0 \<le> u \<and> u < 1"
      and rec: "init_loop (Suc i) n draws2
                 (arr @ [robot\<lparr>index := movement_indices ! nat \<lfloor>u * 4\<rfloor>\<rparr>]) = Inr rs"
      by (subst (asm) init_loop.simps) (auto split: sum.splits list.splits if_splits)
    have "boxes_apart (arr @ [robot\<lparr>index := movement_indices ! nat \<lfloor>u * 4\<rfloor>\<rparr>])"
      using boxes_apart_snoc [OF "1.prems"(2), of "robot\<lparr>index := movement_indices ! nat \<lfloor>u * 4\<rfloor>\<rparr>"]
        place_robot_apart [OF p] by simp
    moreover have "\<forall>r \<in> set (arr @ [robot\<lparr>index := movement_indices ! nat \<lfloor>u * 4\<rfloor>\<rparr>]).
        index r \<in> {1, 2, 3, 4}"
      using "1.prems"(3) movement_index_range [of u] u by auto
    ultimately show ?thesis
      using "1.IH" [OF True p refl d u rec] by blast
  qed
qed

text \<open>
  Every run of \<open>initialize_robots\<close> that returns has placed robots whose boxes are
  pairwise apart, each with an index among 1, 2, 3, 4.
\<close>

lemma initialize_robots_placement:
  "initialize_robots draws num_robots = Inr rs \<Longrightarrow>
   boxes_apart rs \<and> (\<forall>r \<in> set rs. index r \<in> {1, 2, 3, 4})"
  using init_loop_placement [of 0 _ draws "[]" rs]
  by (auto simp: initialize_robots_def boxes_apart_def split: option.splits)

subsection \<open>The library box of the cube with its pistons\<close>

















subsection \<open>Landing (C2)\<close>








subsection \<open>Bounding boxes (C9)\<close>

lemma ordered_box_after_move:
  "(\<And>c p. ordered (sfo c p)) \<Longrightarrow> ordered (bounding_box (move sfo m inp r))"
  by (simp add: box_after_move)





subsection \<open>Placement: what a run returns (C7)\<close>

lemma place_robot_rest:
  "place_robot arr draws = Inr (robot, rest) \<Longrightarrow> set rest \<subseteq> set draws"
proof (induction arr draws rule: place_robot.induct)
  case (1 arr u1 u2 draws)
  show ?case
  proof (cases "list_ex (\<lambda>current. intersectsBox
        (bounding_box (create_robots (u1 * 36 - 18) 1.3 (u2 * 36 - 18))) (bounding_box current)) arr")
    case True
    then have "place_robot arr draws = Inr (robot, rest)"
      using "1.prems" by (simp add: Let_def)
    with "1.IH" [OF refl refl refl refl] True have "set rest \<subseteq> set draws"
      by simp
    then show ?thesis by auto
  next
    case False
    then have "rest = draws"
      using "1.prems" by (simp add: Let_def)
    then show ?thesis by auto
  qed
qed simp_all

lemma init_loop_index_draw:
  "init_loop i n draws arr = Inr rs \<Longrightarrow>
   \<forall>r \<in> set rs. r \<in> set arr
      \<or> (\<exists>u \<in> set draws. 0 \<le> u \<and> u < 1 \<and> index r = movement_indices ! nat \<lfloor>u * 4\<rfloor>)"
proof (induction i n draws arr rule: init_loop.induct)
  case (1 i n draws arr)
  show ?case
  proof (cases "js_less (real i) n")
    case False
    then have "rs = arr"
      using "1.prems" by (subst (asm) init_loop.simps) simp
    then show ?thesis by simp
  next
    case True
    from "1.prems" True obtain robot draws1 u draws2 where
      p: "place_robot arr draws = Inr (robot, draws1)" and d: "draws1 = u # draws2"
      and u: "0 \<le> u \<and> u < 1"
      and rec: "init_loop (Suc i) n draws2
                 (arr @ [robot\<lparr>index := movement_indices ! nat \<lfloor>u * 4\<rfloor>\<rparr>]) = Inr rs"
      by (subst (asm) init_loop.simps) (auto split: sum.splits list.splits if_splits)
    have sub: "set draws1 \<subseteq> set draws"
      using place_robot_rest [OF p] .
    have ih: "\<forall>r \<in> set rs. r \<in> set (arr @ [robot\<lparr>index := movement_indices ! nat \<lfloor>u * 4\<rfloor>\<rparr>])
        \<or> (\<exists>v \<in> set draws2. 0 \<le> v \<and> v < 1 \<and> index r = movement_indices ! nat \<lfloor>v * 4\<rfloor>)"
      using "1.IH" [OF True p refl d u rec] .
    show ?thesis
    proof
      fix r assume "r \<in> set rs"
      with ih consider "r \<in> set arr"
        | "r = robot\<lparr>index := movement_indices ! nat \<lfloor>u * 4\<rfloor>\<rparr>"
        | v where "v \<in> set draws2" "0 \<le> v \<and> v < 1" "index r = movement_indices ! nat \<lfloor>v * 4\<rfloor>"
        by auto
      then show "r \<in> set arr
          \<or> (\<exists>u \<in> set draws. 0 \<le> u \<and> u < 1 \<and> index r = movement_indices ! nat \<lfloor>u * 4\<rfloor>)"
      proof cases
        case 1
        then show ?thesis by simp
      next
        case 2
        moreover have "u \<in> set draws" using sub d by auto
        ultimately show ?thesis using u by auto
      next
        case 3
        moreover have "v \<in> set draws" using sub d 3(1) by auto
        ultimately show ?thesis by auto
      qed
    qed
  qed
qed

lemma quarter_intervals:
  fixes u :: real
  assumes "0 \<le> u" and "u < 1"
  shows "(movement_indices ! nat \<lfloor>u * 4\<rfloor> = 1 \<longleftrightarrow> u < 1 / 4)
       \<and> (movement_indices ! nat \<lfloor>u * 4\<rfloor> = 2 \<longleftrightarrow> 1 / 4 \<le> u \<and> u < 1 / 2)
       \<and> (movement_indices ! nat \<lfloor>u * 4\<rfloor> = 3 \<longleftrightarrow> 1 / 2 \<le> u \<and> u < 3 / 4)
       \<and> (movement_indices ! nat \<lfloor>u * 4\<rfloor> = 4 \<longleftrightarrow> 3 / 4 \<le> u)"
proof -
  have range: "\<lfloor>u * 4\<rfloor> = 0 \<or> \<lfloor>u * 4\<rfloor> = 1 \<or> \<lfloor>u * 4\<rfloor> = 2 \<or> \<lfloor>u * 4\<rfloor> = 3"
  proof -
    have "0 \<le> \<lfloor>u * 4\<rfloor>" "\<lfloor>u * 4\<rfloor> < 4"
      using assms by (simp_all add: floor_less_iff)
    then show ?thesis by linarith
  qed
  have fl: "\<lfloor>u * 4\<rfloor> = k \<longleftrightarrow> real_of_int k \<le> u * 4 \<and> u * 4 < real_of_int k + 1" for k
    by (rule floor_eq_iff)
  from range show ?thesis
  proof (elim disjE)
    assume a: "\<lfloor>u * 4\<rfloor> = 0"
    with fl [of 0] have "0 \<le> u * 4 \<and> u * 4 < 1" by simp
    with a show ?thesis by (simp add: movement_indices_def)
  next
    assume a: "\<lfloor>u * 4\<rfloor> = 1"
    with fl [of 1] have "1 \<le> u * 4 \<and> u * 4 < 2" by simp
    with a show ?thesis by (simp add: movement_indices_def)
  next
    assume a: "\<lfloor>u * 4\<rfloor> = 2"
    with fl [of 2] have "2 \<le> u * 4 \<and> u * 4 < 3" by simp
    with a show ?thesis by (simp add: movement_indices_def)
  next
    assume a: "\<lfloor>u * 4\<rfloor> = 3"
    with fl [of 3] have "3 \<le> u * 4 \<and> u * 4 < 4" by simp
    with a show ?thesis by (simp add: movement_indices_def)
  qed
qed

lemma bounding_box_candidate:
  "bounding_box (candidate (a, b, u)) = bounding_box (create_robots (a * 36 - 18) 1.3 (b * 36 - 18))"
  by (simp add: candidate_def)

lemma init_loop_returns:
  assumes "boxes_apart (arr @ map candidate ts)"
    and "\<forall>(a, b, u) \<in> set ts. 0 \<le> u \<and> u < 1"
  shows "init_loop i (Num (real (i + length ts))) (draws_of ts) arr = Inr (arr @ map candidate ts)"
  using assms
proof (induction ts arbitrary: i arr)
  case Nil
  then show ?case
    by (simp add: draws_of_def init_loop_done)
next
  case (Cons t ts)
  obtain a b u where t: "t = (a, b, u)"
    by (cases t) auto
  have u: "0 \<le> u" "u < 1"
    using Cons.prems(2) t by auto
  have apart: "\<not> intersectsBox (bounding_box (candidate t)) (bounding_box c)" if "c \<in> set arr" for c
  proof -
    from that obtain k where k: "k < length arr" "c = arr ! k"
      by (auto simp: in_set_conv_nth)
    have "length arr < length (arr @ map candidate (t # ts))"
      "k < length (arr @ map candidate (t # ts))" "length arr \<noteq> k"
      using k(1) by simp_all
    then have "\<not> intersectsBox (bounding_box ((arr @ map candidate (t # ts)) ! length arr))
            (bounding_box ((arr @ map candidate (t # ts)) ! k))"
      using Cons.prems(1) unfolding boxes_apart_def by blast
    then show ?thesis
      using k by (simp add: nth_append)
  qed
  have place: "place_robot arr (a # b # u # draws_of ts)
      = Inr (create_robots (a * 36 - 18) 1.3 (b * 36 - 18), u # draws_of ts)"
    using apart by (auto simp: Let_def list_ex_iff t bounding_box_candidate)
  have next_arr: "boxes_apart ((arr @ [candidate t]) @ map candidate ts)"
    using Cons.prems(1) by simp
  have rest: "\<forall>(a, b, u) \<in> set ts. 0 \<le> u \<and> u < 1"
    using Cons.prems(2) by simp
  have "init_loop i (Num (real (i + length (t # ts)))) (draws_of (t # ts)) arr
      = init_loop (Suc i) (Num (real (Suc i + length ts))) (draws_of ts) (arr @ [candidate t])"
  proof -
    have d: "draws_of (t # ts) = a # b # u # draws_of ts"
      by (simp add: draws_of_def t)
    show ?thesis
      unfolding d using u
      by (simp add: init_loop_step place t candidate_def del: place_robot.simps)
  qed
  also have "\<dots> = Inr ((arr @ [candidate t]) @ map candidate ts)"
    using Cons.IH [OF next_arr rest] .
  finally show ?case by simp
qed

text \<open>
  Claim C7. A run of \<open>initialize_robots\<close> for \<open>n\<close> robots that returns gives exactly
  \<open>n\<close> robots whose boxes are pairwise apart, each with an index among 1, 2, 3, 4 that
  is \<open>movement[floor(4 u)]\<close> for one of the draws \<open>u\<close>. Each of the four index values is
  the image of one quarter of the interval from 0 to 1, so a uniform draw gives a uniform
  index. And the run does return: when the places drawn for the \<open>n\<close> robots are pairwise
  apart, three draws per robot are enough and the result is those \<open>n\<close> robots. How
  likely a run is to return is a matter of the distribution of \<open>Math.random()\<close>, which a
  list of draws does not carry.
\<close>

theorem placed_robots:
  "(initialize_robots draws v = Inr rs \<and> to_number v = Some (Num (real n)) \<longrightarrow>
      length rs = n \<and> boxes_apart rs
      \<and> (\<forall>r \<in> set rs. index r \<in> {1, 2, 3, 4}
            \<and> (\<exists>u \<in> set draws. 0 \<le> u \<and> u < 1
                  \<and> index r = movement_indices ! nat \<lfloor>u * 4\<rfloor>)))
   \<and> (0 \<le> (w::real) \<and> w < 1 \<longrightarrow>
        (movement_indices ! nat \<lfloor>w * 4\<rfloor> = 1 \<longleftrightarrow> w < 1 / 4)
        \<and> (movement_indices ! nat \<lfloor>w * 4\<rfloor> = 2 \<longleftrightarrow> 1 / 4 \<le> w \<and> w < 1 / 2)
        \<and> (movement_indices ! nat \<lfloor>w * 4\<rfloor> = 3 \<longleftrightarrow> 1 / 2 \<le> w \<and> w < 3 / 4)
        \<and> (movement_indices ! nat \<lfloor>w * 4\<rfloor> = 4 \<longleftrightarrow> 3 / 4 \<le> w))
   \<and> (boxes_apart (map candidate ts) \<and> (\<forall>(a, b, u) \<in> set ts. 0 \<le> u \<and> u < 1) \<longrightarrow>
        initialize_robots (draws_of ts) (Number (real (length ts))) = Inr (map candidate ts))"
proof (intro conjI impI)
  assume a: "initialize_robots draws v = Inr rs \<and> to_number v = Some (Num (real n))"
  then have a1: "initialize_robots draws v = Inr rs" and a2: "to_number v = Some (Num (real n))"
    by simp_all
  then have run: "init_loop 0 (Num (real n)) draws [] = Inr rs"
    by (simp add: initialize_robots_def)
  from length_init_loop [OF run] show "length rs = n"
    by simp
  from a1 initialize_robots_placement [of draws v rs] show "boxes_apart rs"
    by simp
  show "\<forall>r \<in> set rs. index r \<in> {1, 2, 3, 4}
            \<and> (\<exists>u \<in> set draws. 0 \<le> u \<and> u < 1
                  \<and> index r = movement_indices ! nat \<lfloor>u * 4\<rfloor>)"
    using a1 initialize_robots_placement [of draws v rs] init_loop_index_draw [OF run]
    by auto
next
  assume "0 \<le> w \<and> w < 1"
  then have "0 \<le> w" "w < 1" by simp_all
  from quarter_intervals [OF this]
  show "movement_indices ! nat \<lfloor>w * 4\<rfloor> = 1 \<longleftrightarrow> w < 1 / 4"
    "movement_indices ! nat \<lfloor>w * 4\<rfloor> = 2 \<longleftrightarrow> 1 / 4 \<le> w \<and> w < 1 / 2"
    "movement_indices ! nat \<lfloor>w * 4\<rfloor> = 3 \<longleftrightarrow> 1 / 2 \<le> w \<and> w < 3 / 4"
    "movement_indices ! nat \<lfloor>w * 4\<rfloor> = 4 \<longleftrightarrow> 3 / 4 \<le> w"
    by blast+
next
  assume "boxes_apart (map candidate ts) \<and> (\<forall>(a, b, u) \<in> set ts. 0 \<le> u \<and> u < 1)"
  then have "boxes_apart ([] @ map candidate ts)" "\<forall>(a, b, u) \<in> set ts. 0 \<le> u \<and> u < 1"
    by simp_all
  from init_loop_returns [OF this, of 0]
  show "initialize_robots (draws_of ts) (Number (real (length ts))) = Inr (map candidate ts)"
    by (simp add: initialize_robots_def to_number_def)
qed

lemma placement_run:
  "initialize_robots [0, 0, 0, 0, 0, 1 / 2, 1 / 2, 1 / 2] (Number 2)
     = Inr [candidate (0, 0, 0), candidate (1 / 2, 1 / 2, 1 / 2)]"
  by (simp add: initialize_robots_def to_number_def init_loop_step init_loop_done Let_def
      bounding_box_create_robots intersectsBox_def vec_def candidate_def movement_indices_def)

text \<open>
  The theorem for C7 at a run for two robots in which the second place drawn is refused
  once, and at the run without refusal that places the same two robots.
\<close>

theorem placed_robots_witness:
  "initialize_robots [0, 0, 0, 0, 0, 1 / 2, 1 / 2, 1 / 2] (Number 2)
     = Inr [candidate (0, 0, 0), candidate (1 / 2, 1 / 2, 1 / 2)]
   \<and> to_number (Number 2) = Some (Num (real 2))
   \<and> length [candidate (0, 0, 0), candidate (1 / 2, 1 / 2, 1 / 2)] = 2
   \<and> boxes_apart [candidate (0, 0, 0), candidate (1 / 2, 1 / 2, 1 / 2)]
   \<and> index (candidate (0, 0, 0)) = 1 \<and> index (candidate (1 / 2, 1 / 2, 1 / 2)) = 3
   \<and> (0::real) \<le> 1 / 2 \<and> (1 / 2 :: real) < 1
   \<and> movement_indices ! nat \<lfloor>(1 / 2 :: real) * 4\<rfloor> = 3
   \<and> initialize_robots (draws_of [(0, 0, 0), (1 / 2, 1 / 2, 1 / 2)])
        (Number (real (length [(0 :: real, 0 :: real, 0 :: real), (1 / 2, 1 / 2, 1 / 2)])))
       = Inr (map candidate [(0, 0, 0), (1 / 2, 1 / 2, 1 / 2)])"
proof -
  have h: "initialize_robots [0, 0, 0, 0, 0, 1 / 2, 1 / 2, 1 / 2] (Number 2)
      = Inr [candidate (0, 0, 0), candidate (1 / 2, 1 / 2, 1 / 2)]
     \<and> to_number (Number 2) = Some (Num (real 2))"
    by (simp add: placement_run to_number_def)
  have u: "(0::real) \<le> 1 / 2 \<and> (1 / 2 :: real) < 1"
    "\<forall>(a, b, u) \<in> set [(0 :: real, 0 :: real, 0 :: real), (1 / 2, 1 / 2, 1 / 2)]. 0 \<le> u \<and> u < 1"
    by simp_all
  have idx: "index (candidate (0, 0, 0)) = 1" "index (candidate (1 / 2, 1 / 2, 1 / 2)) = 3"
    by (simp_all add: candidate_def movement_indices_def)
  note inst = placed_robots [of "[0, 0, 0, 0, 0, 1 / 2, 1 / 2, 1 / 2]" "Number 2"
      "[candidate (0, 0, 0), candidate (1 / 2, 1 / 2, 1 / 2)]" 2 "1 / 2"
      "[(0, 0, 0), (1 / 2, 1 / 2, 1 / 2)]"]
  show ?thesis
    using h u idx inst by simp
qed

end
